theory Spec2Isabelle
  imports Main
begin

section \<open>Python values\<close>

text \<open>
  The values that \<^verbatim>\<open>json.loads\<close> and \<^verbatim>\<open>ast.literal_eval\<close> can hand to
  \<^verbatim>\<open>format_query_from_strat_name\<close> (src/app/strategy/service.py).
  A character stands for the code point of the same number, so strings range over the
  code points below 256.  A float is kept as the text \<^verbatim>\<open>repr\<close> prints for it: no
  arithmetic is done on floats, they are only tested for truth and printed.
  \<open>PBytes\<close> and \<open>PByteArray\<close> hold their bytes.
  \<open>POther\<close> is any object of another type (a set, a complex number, Ellipsis): its
  type name, its truth value, and what \<^verbatim>\<open>str\<close> does on it, which is to return a text
  or to raise.
\<close>

text \<open>Exceptions, each with the message \<^verbatim>\<open>str(e)\<close> gives.  Only subclasses of
  \<^verbatim>\<open>Exception\<close> are meant, which is what the handlers of the source catch.\<close>

datatype exn =
    AttributeError string
  | TypeError string
  | ValueError string
  | SyntaxError string

datatype pyval =
    PNone
  | PBool bool
  | PInt int
  | PFloat string
  | PStr string
  | PBytes string
  | PByteArray string
  | PList "pyval list"
  | PTuple "pyval list"
  | PDict "(pyval \<times> pyval) list"
  | POther string bool "exn + string"

type_synonym pydict = "(pyval \<times> pyval) list"

fun exn_msg :: "exn \<Rightarrow> string" where
  "exn_msg (AttributeError m) = m"
| "exn_msg (TypeError m) = m"
| "exn_msg (ValueError m) = m"
| "exn_msg (SyntaxError m) = m"

fun type_name :: "pyval \<Rightarrow> string" where
  "type_name PNone = ''NoneType''"
| "type_name (PBool _) = ''bool''"
| "type_name (PInt _) = ''int''"
| "type_name (PFloat _) = ''float''"
| "type_name (PStr _) = ''str''"
| "type_name (PBytes _) = ''bytes''"
| "type_name (PByteArray _) = ''bytearray''"
| "type_name (PList _) = ''list''"
| "type_name (PTuple _) = ''tuple''"
| "type_name (PDict _) = ''dict''"
| "type_name (POther n _ _) = n"

text \<open>Truth value testing, as \<^verbatim>\<open>not x\<close>, \<^verbatim>\<open>x or y\<close> and \<^verbatim>\<open>if x\<close> do it.\<close>

fun truthy :: "pyval \<Rightarrow> bool" where
  "truthy PNone = False"
| "truthy (PBool b) = b"
| "truthy (PInt i) = (i \<noteq> 0)"
| "truthy (PFloat r) = (r \<noteq> ''0.0'' \<and> r \<noteq> ''-0.0'')"
| "truthy (PStr s) = (s \<noteq> [])"
| "truthy (PBytes s) = (s \<noteq> [])"
| "truthy (PByteArray s) = (s \<noteq> [])"
| "truthy (PList xs) = (xs \<noteq> [])"
| "truthy (PTuple xs) = (xs \<noteq> [])"
| "truthy (PDict kvs) = (kvs \<noteq> [])"
| "truthy (POther _ b _) = b"

definition py_or :: "pyval \<Rightarrow> pyval \<Rightarrow> pyval" where
  "py_or a b = (if truthy a then a else b)"

subsection \<open>Printing: \<^verbatim>\<open>str\<close> and \<^verbatim>\<open>repr\<close>\<close>

text \<open>
  Integers are unbounded.  Printing an integer of more than
  \<^verbatim>\<open>sys.get_int_max_str_digits()\<close> digits raises ValueError; the limit is taken at
  its default, 4300.  So \<^verbatim>\<open>str\<close>, \<^verbatim>\<open>repr\<close> and the fields of an f-string either
  return a text or raise, and the first value that raises, from left to right, decides.
  Limits of memory and of recursion depth are not modelled.
\<close>

definition and_then :: "exn + 'a \<Rightarrow> ('a \<Rightarrow> exn + 'b) \<Rightarrow> exn + 'b" where
  "and_then outcome f = (case outcome of Inl e \<Rightarrow> Inl e | Inr x \<Rightarrow> f x)"

text \<open>The outcomes of a list of calls, in order: the first exception, or all the values.\<close>

fun all_of :: "(exn + 'a) list \<Rightarrow> exn + 'a list" where
  "all_of [] = Inr []"
| "all_of (Inl e # rs) = Inl e"
| "all_of (Inr x # rs) = (case all_of rs of Inl e \<Rightarrow> Inl e | Inr xs \<Rightarrow> Inr (x # xs))"

definition digit_char :: "nat \<Rightarrow> char" where
  "digit_char d = char_of (48 + d)"

function nat_str :: "nat \<Rightarrow> string" where
  "nat_str n = (if n < 10 then [digit_char n] else nat_str (n div 10) @ [digit_char (n mod 10)])"
  by pat_completeness auto
termination
  by (relation "measure id") auto

declare nat_str.simps [simp del]

definition int_max_str_digits :: nat where
  "int_max_str_digits = 4300"

definition digit_limit_error :: exn where
  "digit_limit_error =
     ValueError (''Exceeds the limit ('' @ nat_str int_max_str_digits
       @ '' digits) for integer string conversion; use sys.set_int_max_str_digits() to increase the limit'')"

definition int_str :: "int \<Rightarrow> exn + string" where
  "int_str i =
     (let digits = nat_str (nat \<bar>i\<bar>)
      in if int_max_str_digits < length digits then Inl digit_limit_error
         else Inr (if i < 0 then CHR ''-'' # digits else digits))"

definition hex_char :: "nat \<Rightarrow> char" where
  "hex_char d = (if d < 10 then char_of (48 + d) else char_of (87 + d))"

definition squote :: char where
  "squote = CHR 0x27"

definition dquote :: char where
  "dquote = CHR 0x22"

definition backslash :: char where
  "backslash = CHR 0x5C"

text \<open>The code points below 256 that \<^verbatim>\<open>repr\<close> prints as they are.\<close>

definition printable :: "char \<Rightarrow> bool" where
  "printable c = (let n = (of_char c :: nat) in (32 \<le> n \<and> n < 127) \<or> (161 \<le> n \<and> n \<noteq> 173))"

definition repr_char :: "char \<Rightarrow> char \<Rightarrow> string" where
  "repr_char q c =
     (if c = q \<or> c = backslash then [backslash, c]
      else if c = CHR 0x09 then [backslash, CHR ''t'']
      else if c = CHR 0x0A then [backslash, CHR ''n'']
      else if c = CHR 0x0D then [backslash, CHR ''r'']
      else if printable c then [c]
      else [backslash, CHR ''x'', hex_char ((of_char c :: nat) div 16),
            hex_char ((of_char c :: nat) mod 16)])"

definition str_repr :: "string \<Rightarrow> string" where
  "str_repr s =
     (let q = (if squote \<in> set s \<and> dquote \<notin> set s then dquote else squote)
      in q # concat (map (repr_char q) s) @ [q])"

text \<open>The same for bytes, where only the printable ASCII characters are kept as they are.\<close>

definition repr_byte :: "char \<Rightarrow> char \<Rightarrow> string" where
  "repr_byte q c =
     (if c = q \<or> c = backslash then [backslash, c]
      else if c = CHR 0x09 then [backslash, CHR ''t'']
      else if c = CHR 0x0A then [backslash, CHR ''n'']
      else if c = CHR 0x0D then [backslash, CHR ''r'']
      else if 32 \<le> (of_char c :: nat) \<and> (of_char c :: nat) < 127 then [c]
      else [backslash, CHR ''x'', hex_char ((of_char c :: nat) div 16),
            hex_char ((of_char c :: nat) mod 16)])"

definition bytes_repr :: "string \<Rightarrow> string" where
  "bytes_repr s =
     (let q = (if squote \<in> set s \<and> dquote \<notin> set s then dquote else squote)
      in CHR ''b'' # q # concat (map (repr_byte q) s) @ [q])"

fun py_join :: "string \<Rightarrow> string list \<Rightarrow> string" where
  "py_join sep [] = []"
| "py_join sep [x] = x"
| "py_join sep (x # y # ys) = x @ sep @ py_join sep (y # ys)"

fun py_repr :: "pyval \<Rightarrow> exn + string" where
  "py_repr PNone = Inr ''None''"
| "py_repr (PBool b) = Inr (if b then ''True'' else ''False'')"
| "py_repr (PInt i) = int_str i"
| "py_repr (PFloat r) = Inr r"
| "py_repr (PStr s) = Inr (str_repr s)"
| "py_repr (PBytes s) = Inr (bytes_repr s)"
| "py_repr (PByteArray s) = Inr (''bytearray('' @ bytes_repr s @ '')'')"
| "py_repr (PList xs) =
     and_then (all_of (map py_repr xs)) (\<lambda>rs. Inr (''['' @ py_join '', '' rs @ '']''))"
| "py_repr (PTuple xs) =
     and_then (all_of (map py_repr xs))
       (\<lambda>rs. Inr (case rs of [r] \<Rightarrow> ''('' @ r @ '',)'' | _ \<Rightarrow> ''('' @ py_join '', '' rs @ '')''))"
| "py_repr (PDict kvs) =
     and_then
       (all_of (map (\<lambda>kv. and_then (py_repr (fst kv))
                             (\<lambda>k. and_then (py_repr (snd kv)) (\<lambda>v. Inr (k @ '': '' @ v)))) kvs))
       (\<lambda>rs. Inr (''{'' @ py_join '', '' rs @ ''}''))"
| "py_repr (POther _ _ r) = r"

text \<open>\<^verbatim>\<open>str(x)\<close>, which is also what an f-string field \<^verbatim>\<open>{x}\<close> does.\<close>

definition py_str :: "pyval \<Rightarrow> exn + string" where
  "py_str v = (case v of PStr s \<Rightarrow> Inr s | _ \<Rightarrow> py_repr v)"

subsection \<open>String methods\<close>

text \<open>\<^verbatim>\<open>str.isspace\<close> on the code points below 256.\<close>

definition py_isspace :: "char \<Rightarrow> bool" where
  "py_isspace c =
     (let n = (of_char c :: nat)
      in (9 \<le> n \<and> n \<le> 13) \<or> (28 \<le> n \<and> n \<le> 32) \<or> n = 133 \<or> n = 160)"

definition rstrip_while :: "(char \<Rightarrow> bool) \<Rightarrow> string \<Rightarrow> string" where
  "rstrip_while P s = rev (dropWhile P (rev s))"

text \<open>\<^verbatim>\<open>s.rstrip()\<close>, \<^verbatim>\<open>s.strip()\<close> and \<^verbatim>\<open>s.rstrip(chars)\<close>: the last one removes
  trailing characters as long as they occur in \<^verbatim>\<open>chars\<close>.\<close>

definition py_rstrip :: "string \<Rightarrow> string" where
  "py_rstrip s = rstrip_while py_isspace s"

definition py_strip :: "string \<Rightarrow> string" where
  "py_strip s = rstrip_while py_isspace (dropWhile py_isspace s)"

definition py_rstrip_chars :: "string \<Rightarrow> string \<Rightarrow> string" where
  "py_rstrip_chars chars s = rstrip_while (\<lambda>c. c \<in> set chars) s"

text \<open>\<^verbatim>\<open>str.lower\<close> on the code points below 256.\<close>

definition lower_char :: "char \<Rightarrow> char" where
  "lower_char c =
     (let n = (of_char c :: nat)
      in if (65 \<le> n \<and> n \<le> 90) \<or> (192 \<le> n \<and> n \<le> 222 \<and> n \<noteq> 215) then char_of (n + 32) else c)"

definition py_lower :: "string \<Rightarrow> string" where
  "py_lower s = map lower_char s"

text \<open>\<^verbatim>\<open>s.replace("'", '"')\<close>.\<close>

definition replace_quotes :: "string \<Rightarrow> string" where
  "replace_quotes s = map (\<lambda>c. if c = squote then dquote else c) s"

subsection \<open>Dictionaries\<close>

text \<open>A dict is its items in insertion order; only text keys are ever looked up.\<close>

definition dict_get_default :: "pydict \<Rightarrow> string \<Rightarrow> pyval \<Rightarrow> pyval" where
  "dict_get_default d k dflt = (case map_of d (PStr k) of Some v \<Rightarrow> v | None \<Rightarrow> dflt)"

definition dict_get :: "pydict \<Rightarrow> string \<Rightarrow> pyval" where
  "dict_get d k = dict_get_default d k PNone"

definition no_attribute :: "pyval \<Rightarrow> string \<Rightarrow> exn" where
  "no_attribute v a =
     AttributeError (squote # type_name v @ squote # '' object has no attribute '' @ squote # a @ [squote])"

section \<open>The coercion step\<close>

text \<open>
  \<^verbatim>\<open>json.loads\<close> and \<^verbatim>\<open>ast.literal_eval\<close> belong to the Python library, not to the
  repository: the functions below take them as the parameters \<open>json_loads\<close> and
  \<open>literal_eval\<close>, each answering with the exception it raises or the value it
  returns.  \<^verbatim>\<open>json.loads\<close> is called on the caller's argument unchecked, so it takes
  any value; \<^verbatim>\<open>ast.literal_eval\<close> is only ever called on text.
\<close>

type_synonym json_parser = "pyval \<Rightarrow> exn + pyval"
type_synonym literal_parser = "string \<Rightarrow> exn + pyval"

text \<open>The second \<^verbatim>\<open>try\<close> block of \<^verbatim>\<open>_coerce_to_dict\<close>: the Python-literal parse and
  the one level of nested text.\<close>

definition coerce_literal :: "json_parser \<Rightarrow> literal_parser \<Rightarrow> string \<Rightarrow> pydict option" where
  "coerce_literal json_loads literal_eval possibly_json =
     (case literal_eval possibly_json of
        Inr (PDict parsed) \<Rightarrow> Some parsed
      | Inr (PStr parsed) \<Rightarrow>
          (case json_loads (PStr parsed) of
             Inr (PDict nested) \<Rightarrow> Some nested
           | Inr _ \<Rightarrow> None
           | Inl _ \<Rightarrow>
               (case literal_eval parsed of
                  Inr (PDict nested2) \<Rightarrow> Some nested2
                | _ \<Rightarrow> None))
      | _ \<Rightarrow> None)"

text \<open>The last \<^verbatim>\<open>try\<close> block: single quotes replaced by double quotes, then JSON.\<close>

definition coerce_sanitized :: "json_parser \<Rightarrow> string \<Rightarrow> pydict option" where
  "coerce_sanitized json_loads possibly_json =
     (case json_loads (PStr (replace_quotes possibly_json)) of
        Inr (PDict parsed) \<Rightarrow> Some parsed
      | _ \<Rightarrow> None)"

text \<open>\<^verbatim>\<open>_coerce_to_dict\<close>: a dict, or \<open>None\<close> for Python's \<^verbatim>\<open>None\<close>.\<close>

definition coerce_to_dict :: "json_parser \<Rightarrow> literal_parser \<Rightarrow> pyval \<Rightarrow> pydict option" where
  "coerce_to_dict json_loads literal_eval possibly_json =
     (case possibly_json of
        PStr s \<Rightarrow>
          if s = [] then None
          else (case json_loads (PStr s) of
                  Inr (PDict parsed) \<Rightarrow> Some parsed
                | _ \<Rightarrow>
                    (case coerce_literal json_loads literal_eval s of
                       Some parsed \<Rightarrow> Some parsed
                     | None \<Rightarrow> coerce_sanitized json_loads s))
      | _ \<Rightarrow> None)"

section \<open>The formatter\<close>

definition sign_map :: "(string \<times> string) list" where
  "sign_map =
     [(''gt'', ''>''), (''gte'', ''>=''), (''lt'', ''<''), (''lte'', ''<=''),
      (''eq'', ''=''), (''ne'', ''!='')]"

text \<open>\<^verbatim>\<open>sign_map.get(str(sign).lower(), sign)\<close>.\<close>

definition readable_sign :: "pyval \<Rightarrow> exn + pyval" where
  "readable_sign sign =
     and_then (py_str sign)
       (\<lambda>s. Inr (case map_of sign_map (py_lower s) of
                    Some symbol \<Rightarrow> PStr symbol
                  | None \<Rightarrow> sign))"

text \<open>\<^verbatim>\<open>','.join(map(str, threshold))\<close> for a list or a tuple, \<^verbatim>\<open>str(threshold)\<close>
  otherwise.\<close>

definition threshold_str :: "pyval \<Rightarrow> exn + string" where
  "threshold_str threshold =
     (case threshold of
        PList xs \<Rightarrow> and_then (all_of (map py_str xs)) (\<lambda>rs. Inr (py_join '','' rs))
      | PTuple xs \<Rightarrow> and_then (all_of (map py_str xs)) (\<lambda>rs. Inr (py_join '','' rs))
      | _ \<Rightarrow> py_str threshold)"

definition sign_token :: "pydict \<Rightarrow> pyval" where
  "sign_token data = py_or (py_or (dict_get data ''sign'') (dict_get data ''op'')) (PStr ''='')"

definition with_operator :: "string \<Rightarrow> pyval \<Rightarrow> string" where
  "with_operator clause operator =
     (case operator of
        PStr op \<Rightarrow> if op \<noteq> [] \<and> py_strip op \<noteq> [] then clause @ '' '' @ py_strip op else clause
      | _ \<Rightarrow> clause)"

text \<open>\<^verbatim>\<open>filter_item.get('Data') or filter_item.get('data') or {}\<close>, the same for the
  operator with \<^verbatim>\<open>''\<close>, and \<^verbatim>\<open>data.get('param') or {}\<close>.\<close>

definition filter_data :: "pydict \<Rightarrow> pyval" where
  "filter_data filter_item =
     py_or (py_or (dict_get filter_item ''Data'') (dict_get filter_item ''data'')) (PDict [])"

definition filter_operator :: "pydict \<Rightarrow> pyval" where
  "filter_operator filter_item =
     py_or (py_or (dict_get filter_item ''Operator'') (dict_get filter_item ''operator'')) (PStr [])"

definition filter_param :: "pydict \<Rightarrow> pyval" where
  "filter_param data = py_or (dict_get data ''param'') (PDict [])"

definition param_name :: "pydict \<Rightarrow> pyval" where
  "param_name param = py_or (py_or (dict_get param ''name'') (dict_get param ''field'')) (PStr ''Unknown'')"

text \<open>
  The three statements that build the clause: the text of the threshold, the readable
  sign, and the f-string with its fields from left to right, stripped.
\<close>

definition clause_text :: "pyval \<Rightarrow> pyval \<Rightarrow> pyval \<Rightarrow> pyval \<Rightarrow> exn + string" where
  "clause_text name period sign threshold =
     and_then (threshold_str threshold) (\<lambda>threshold_text.
     and_then (readable_sign sign) (\<lambda>readable.
     and_then (py_str name) (\<lambda>name_text.
     and_then (py_str period) (\<lambda>period_text.
     and_then (py_str readable) (\<lambda>sign_text.
       Inr (py_strip (name_text @ '' '' @ period_text @ '' Years '' @ sign_text
              @ '' '' @ threshold_text)))))))"

text \<open>
  The body of the loop for one entry that is a dict.  \<^verbatim>\<open>data.get\<close> and
  \<^verbatim>\<open>param.get\<close> raise AttributeError when \<^verbatim>\<open>data\<close> or \<^verbatim>\<open>param\<close> is not a dict;
  once the first call on each has succeeded the later ones cannot fail.  After them
  only the printing of the values can raise.
\<close>

definition format_filter :: "pydict \<Rightarrow> exn + string" where
  "format_filter filter_item =
     (let data = filter_data filter_item;
          operator = filter_operator filter_item
      in case data of
           PDict dd \<Rightarrow>
             (let param = filter_param dd
              in case param of
                   PDict pd \<Rightarrow>
                     (let sign = sign_token dd;
                          threshold = dict_get dd ''threshold'';
                          period = dict_get_default dd ''period'' (PInt 1);
                          clause = clause_text (param_name pd) period sign threshold
                      in and_then clause (\<lambda>clause. Inr (with_operator clause operator)))
                 | _ \<Rightarrow> Inl (no_attribute param ''get''))
         | _ \<Rightarrow> Inl (no_attribute data ''get''))"

text \<open>The loop over \<^verbatim>\<open>filters\<close>, with \<^verbatim>\<open>formatted_filters\<close> as the accumulator.\<close>

fun format_filters :: "pyval list \<Rightarrow> string list \<Rightarrow> exn + string list" where
  "format_filters [] formatted_filters = Inr formatted_filters"
| "format_filters (PDict filter_item # filters) formatted_filters =
     (case format_filter filter_item of
        Inl e \<Rightarrow> Inl e
      | Inr clause \<Rightarrow> format_filters filters (formatted_filters @ [clause]))"
| "format_filters (_ # filters) formatted_filters = format_filters filters formatted_filters"

text \<open>\<^verbatim>\<open>' '.join(formatted_filters).rstrip().rstrip('AND').rstrip()\<close>.\<close>

definition join_clauses :: "string list \<Rightarrow> string" where
  "join_clauses formatted_filters =
     py_rstrip (py_rstrip_chars ''AND'' (py_rstrip (py_join '' '' formatted_filters)))"

text \<open>The first parse: \<^verbatim>\<open>json.loads\<close>, and \<^verbatim>\<open>_coerce_to_dict\<close> when it raises.\<close>

definition load_query_data :: "json_parser \<Rightarrow> literal_parser \<Rightarrow> pyval \<Rightarrow> pyval" where
  "load_query_data json_loads literal_eval strat_name =
     (case json_loads strat_name of
        Inr v \<Rightarrow> v
      | Inl _ \<Rightarrow>
          (case coerce_to_dict json_loads literal_eval strat_name of
             Some d \<Rightarrow> PDict d
           | None \<Rightarrow> PNone))"

text \<open>The unwrapping of a \<^verbatim>\<open>query\<close> key.\<close>

definition unwrap_query :: "json_parser \<Rightarrow> literal_parser \<Rightarrow> pydict \<Rightarrow> pydict" where
  "unwrap_query json_loads literal_eval query_data =
     (case map_of query_data (PStr ''query'') of
        Some (PStr inner) \<Rightarrow>
          (case coerce_to_dict json_loads literal_eval (PStr inner) of
             Some inner_parsed \<Rightarrow> inner_parsed
           | None \<Rightarrow> query_data)
      | Some (PDict inner) \<Rightarrow> inner
      | _ \<Rightarrow> query_data)"

text \<open>Everything from \<^verbatim>\<open>filters = query_data.get('filters')\<close> on.\<close>

definition render_filters :: "pydict \<Rightarrow> exn + string" where
  "render_filters query_data =
     (case dict_get query_data ''filters'' of
        PList filters \<Rightarrow>
          if length filters = 0 then Inr ''No filters defined''
          else (case format_filters filters [] of
                  Inl e \<Rightarrow> Inl e
                | Inr formatted_filters \<Rightarrow>
                    if formatted_filters \<noteq> [] then Inr (join_clauses formatted_filters)
                    else Inr ''No valid filters found'')
      | _ \<Rightarrow> Inr ''No filters defined'')"

text \<open>The body of the outer \<^verbatim>\<open>try\<close>: the string returned, or the exception raised.\<close>

definition format_query_try :: "json_parser \<Rightarrow> literal_parser \<Rightarrow> pyval \<Rightarrow> exn + string" where
  "format_query_try json_loads literal_eval strat_name =
     (if \<not> truthy strat_name then Inr ''No query available''
      else (case load_query_data json_loads literal_eval strat_name of
              PDict query_data \<Rightarrow> render_filters (unwrap_query json_loads literal_eval query_data)
            | _ \<Rightarrow> Inr ''Invalid query format''))"

text \<open>The handler \<^verbatim>\<open>except Exception as e\<close> around the body.\<close>

definition absorb_fault :: "exn + string \<Rightarrow> string" where
  "absorb_fault outcome =
     (case outcome of
        Inr result \<Rightarrow> result
      | Inl e \<Rightarrow> ''Query parsing error: '' @ exn_msg e)"

definition format_query_from_strat_name :: "json_parser \<Rightarrow> literal_parser \<Rightarrow> pyval \<Rightarrow> string" where
  "format_query_from_strat_name json_loads literal_eval strat_name =
     absorb_fault (format_query_try json_loads literal_eval strat_name)"

section \<open>Readers for the examples\<close>

text \<open>
  Executable readers for a fragment of JSON and of Python literal syntax, used where a
  statement is about one concrete text.  Inside the fragment they answer as
  \<^verbatim>\<open>json.loads\<close> and \<^verbatim>\<open>ast.literal_eval\<close> do: objects with text keys, lists,
  tuples (literal syntax only), strings with the escapes of one character, integers,
  \<^verbatim>\<open>true/false/null\<close> or \<^verbatim>\<open>True/False/None\<close>, and decimal fractions that are
  already written the way \<^verbatim>\<open>repr\<close> prints the float (at most 15 digits, no
  exponent, no superfluous zero).  Every other text is answered with an error, whose
  class and message are stand-ins: the source never looks at the error of a parse.
  So outside the fragment the readers can answer with an error where the library
  returns a value: numbers with an exponent or written longer than \<^verbatim>\<open>repr\<close> writes
  them, \<^verbatim>\<open>NaN\<close> and \<^verbatim>\<open>Infinity\<close>, the escapes \<^verbatim>\<open>\u\<close> and \<^verbatim>\<open>\x\<close>, bytes that
  are not ASCII, and in literal syntax also keys that are not text, signs other than a
  leading minus, string prefixes, sets, and a text that begins with a line break.  They
  are used only at texts of the fragment.
\<close>

datatype dialect = Json | Literal

definition is_ws :: "char \<Rightarrow> bool" where
  "is_ws c = (c = CHR '' '' \<or> c = CHR 0x09 \<or> c = CHR 0x0A \<or> c = CHR 0x0D)"

definition skip_ws :: "string \<Rightarrow> string" where
  "skip_ws s = dropWhile is_ws s"

definition is_digit :: "char \<Rightarrow> bool" where
  "is_digit c = (48 \<le> (of_char c :: nat) \<and> (of_char c :: nat) \<le> 57)"

definition digits_val :: "string \<Rightarrow> nat" where
  "digits_val ds = foldl (\<lambda>a c. 10 * a + ((of_char c :: nat) - 48)) 0 ds"

definition unescape :: "dialect \<Rightarrow> char \<Rightarrow> char option" where
  "unescape sx e =
     (if e = backslash \<or> e = dquote then Some e
      else if e = CHR ''n'' then Some (CHR 0x0A)
      else if e = CHR ''r'' then Some (CHR 0x0D)
      else if e = CHR ''t'' then Some (CHR 0x09)
      else if e = CHR ''b'' then Some (CHR 0x08)
      else if e = CHR ''f'' then Some (CHR 0x0C)
      else if e = CHR ''/'' \<and> sx = Json then Some e
      else if e = squote \<and> sx = Literal then Some e
      else None)"

text \<open>The text of a string after its opening quote \<open>q\<close>, and what follows it.\<close>

fun read_string :: "dialect \<Rightarrow> char \<Rightarrow> string \<Rightarrow> (string \<times> string) option" where
  "read_string sx q [] = None"
| "read_string sx q [c] = (if c = q then Some ([], []) else None)"
| "read_string sx q (c # d # cs) =
     (if c = q then Some ([], d # cs)
      else if c = backslash then
        (case unescape sx d of
           None \<Rightarrow> None
         | Some ch \<Rightarrow> map_option (\<lambda>p. (ch # fst p, snd p)) (read_string sx q cs))
      else if (of_char c :: nat) < 32 then None
      else map_option (\<lambda>p. (c # fst p, snd p)) (read_string sx q (d # cs)))"

definition read_number :: "string \<Rightarrow> (pyval \<times> string) option" where
  "read_number s =
     (let neg = (s \<noteq> [] \<and> hd s = CHR ''-'');
          s1 = (if neg then tl s else s);
          ds = takeWhile is_digit s1;
          r1 = dropWhile is_digit s1
      in if ds = [] \<or> (length ds > 1 \<and> hd ds = CHR ''0'') \<or> int_max_str_digits < length ds
         then None
         else if r1 \<noteq> [] \<and> hd r1 = CHR ''.'' then
           (let fs = takeWhile is_digit (tl r1);
                r2 = dropWhile is_digit (tl r1)
            in if fs = [] \<or> (fs \<noteq> ''0'' \<and> last fs = CHR ''0'') \<or> 15 < length ds + length fs
                  \<or> (ds = ''0'' \<and> take 4 fs = ''0000'')
                  \<or> (r2 \<noteq> [] \<and> (hd r2 = CHR ''e'' \<or> hd r2 = CHR ''E''))
               then None
               else Some (PFloat ((if neg then ''-'' else []) @ ds @ ''.'' @ fs), r2))
         else if r1 \<noteq> [] \<and> (hd r1 = CHR ''e'' \<or> hd r1 = CHR ''E'') then None
         else Some (PInt (if neg then - int (digits_val ds) else int (digits_val ds)), r1))"

definition read_keyword :: "dialect \<Rightarrow> string \<Rightarrow> (pyval \<times> string) option" where
  "read_keyword sx s =
     (let t = (if sx = Json then ''true'' else ''True'');
          f = (if sx = Json then ''false'' else ''False'');
          n = (if sx = Json then ''null'' else ''None'')
      in if take 4 s = t then Some (PBool True, drop 4 s)
         else if take 5 s = f then Some (PBool False, drop 5 s)
         else if take 4 s = n then Some (PNone, drop 4 s)
         else read_number s)"

text \<open>A repeated key keeps its first place and takes the last value.\<close>

fun dict_put :: "pydict \<Rightarrow> pyval \<Rightarrow> pyval \<Rightarrow> pydict" where
  "dict_put [] k v = [(k, v)]"
| "dict_put ((k', v') # d) k v = (if k' = k then (k', v) # d else (k', v') # dict_put d k v)"

text \<open>
  The first argument bounds the depth of the recursion; the length of the text is
  always enough.  \<open>read_items\<close> also tells whether it met a comma, which separates the
  tuple \<^verbatim>\<open>(x,)\<close> from the bracketed \<^verbatim>\<open>(x)\<close>.
\<close>

fun read_value :: "nat \<Rightarrow> dialect \<Rightarrow> string \<Rightarrow> (pyval \<times> string) option"
  and read_items :: "nat \<Rightarrow> dialect \<Rightarrow> char \<Rightarrow> string \<Rightarrow> (pyval list \<times> bool \<times> string) option"
  and read_members :: "nat \<Rightarrow> dialect \<Rightarrow> pydict \<Rightarrow> string \<Rightarrow> (pydict \<times> string) option"
where
  "read_value 0 sx s = None"
| "read_value (Suc n) sx [] = None"
| "read_value (Suc n) sx (c # r) =
     (if c = CHR ''{'' then
        (case skip_ws r of
           [] \<Rightarrow> None
         | d # r' \<Rightarrow> if d = CHR ''}'' then Some (PDict [], r')
                     else map_option (\<lambda>p. (PDict (fst p), snd p)) (read_members n sx [] (d # r')))
      else if c = CHR ''['' then
        (case skip_ws r of
           [] \<Rightarrow> None
         | d # r' \<Rightarrow> if d = CHR '']'' then Some (PList [], r')
                     else map_option (\<lambda>p. (PList (fst p), snd (snd p)))
                            (read_items n sx (CHR '']'') (d # r')))
      else if c = CHR ''('' \<and> sx = Literal then
        (case skip_ws r of
           [] \<Rightarrow> None
         | d # r' \<Rightarrow> if d = CHR '')'' then Some (PTuple [], r')
                     else (case read_items n sx (CHR '')'') (d # r') of
                             None \<Rightarrow> None
                           | Some (xs, comma, rest) \<Rightarrow>
                               (case xs of
                                  [x] \<Rightarrow> if comma then Some (PTuple xs, rest) else Some (x, rest)
                                | _ \<Rightarrow> Some (PTuple xs, rest))))
      else if c = dquote \<or> (c = squote \<and> sx = Literal) then
        map_option (\<lambda>p. (PStr (fst p), snd p)) (read_string sx c r)
      else read_keyword sx (c # r))"
| "read_items 0 sx close s = None"
| "read_items (Suc n) sx close s =
     (case read_value n sx s of
        None \<Rightarrow> None
      | Some (v, r) \<Rightarrow>
          (case skip_ws r of
             [] \<Rightarrow> None
           | c # r' \<Rightarrow>
               if c = close then Some ([v], False, r')
               else if c = CHR '','' then
                 (case skip_ws r' of
                    [] \<Rightarrow> None
                  | d # r'' \<Rightarrow>
                      if d = close then (if sx = Json then None else Some ([v], True, r''))
                      else map_option (\<lambda>p. (v # fst p, True, snd (snd p)))
                             (read_items n sx close (d # r'')))
               else None))"
| "read_members 0 sx acc s = None"
| "read_members (Suc n) sx acc s =
     (case read_value n sx s of
        Some (PStr k, r) \<Rightarrow>
          (case skip_ws r of
             [] \<Rightarrow> None
           | c # r' \<Rightarrow>
               if c = CHR '':'' then
                 (case read_value n sx (skip_ws r') of
                    None \<Rightarrow> None
                  | Some (v, r2) \<Rightarrow>
                      (case skip_ws r2 of
                         [] \<Rightarrow> None
                       | e # r3 \<Rightarrow>
                           if e = CHR ''}'' then Some (dict_put acc (PStr k) v, r3)
                           else if e = CHR '','' then
                             (case skip_ws r3 of
                                [] \<Rightarrow> None
                              | g # r4 \<Rightarrow>
                                  if g = CHR ''}'' then
                                    (if sx = Json then None else Some (dict_put acc (PStr k) v, r4))
                                  else read_members n sx (dict_put acc (PStr k) v) (g # r4))
                           else None))
               else None)
      | _ \<Rightarrow> None)"

definition read_json_text :: "string \<Rightarrow> exn + pyval" where
  "read_json_text s =
     (case read_value (Suc (length s)) Json (skip_ws s) of
        Some (x, r) \<Rightarrow> if skip_ws r = [] then Inr x else Inl (ValueError ''Extra data'')
      | None \<Rightarrow> Inl (ValueError ''Expecting value''))"

text \<open>Bytes are decoded before they are read; ASCII bytes decode to the same characters.\<close>

definition read_json_bytes :: "string \<Rightarrow> exn + pyval" where
  "read_json_bytes s =
     (if list_all (\<lambda>c. 0 < (of_char c :: nat) \<and> (of_char c :: nat) < 128) s then read_json_text s
      else Inl (ValueError ''bytes outside ASCII''))"

definition json_reader :: json_parser where
  "json_reader v =
     (case v of
        PStr s \<Rightarrow> read_json_text s
      | PBytes s \<Rightarrow> read_json_bytes s
      | PByteArray s \<Rightarrow> read_json_bytes s
      | _ \<Rightarrow> Inl (TypeError (''the JSON object must be str, bytes or bytearray, not '' @ type_name v)))"

definition literal_reader :: literal_parser where
  "literal_reader s =
     (case read_value (Suc (length s)) Literal (dropWhile (\<lambda>c. c = CHR '' '' \<or> c = CHR 0x09) s) of
        Some (x, r) \<Rightarrow> if skip_ws r = [] then Inr x else Inl (SyntaxError ''invalid syntax'')
      | None \<Rightarrow> Inl (SyntaxError ''invalid syntax''))"

section \<open>Notions used to state the properties\<close>

fun is_dict :: "pyval \<Rightarrow> bool" where
  "is_dict (PDict _) = True"
| "is_dict _ = False"

fun is_str :: "pyval \<Rightarrow> bool" where
  "is_str (PStr _) = True"
| "is_str _ = False"

text \<open>The mapping the formatter works on once it has parsed its argument and unwrapped
  a \<^verbatim>\<open>query\<close> key, when the argument is truthy and parses to a mapping.\<close>

definition working_mapping :: "json_parser \<Rightarrow> literal_parser \<Rightarrow> pyval \<Rightarrow> pydict option" where
  "working_mapping json_loads literal_eval strat_name =
     (if truthy strat_name then
        (case load_query_data json_loads literal_eval strat_name of
           PDict query_data \<Rightarrow> Some (unwrap_query json_loads literal_eval query_data)
         | _ \<Rightarrow> None)
      else None)"


text \<open>The entries of \<^verbatim>\<open>filters\<close> that are dicts, in order.\<close>

fun dict_entries :: "pyval list \<Rightarrow> pydict list" where
  "dict_entries [] = []"
| "dict_entries (PDict filter_item # fs) = filter_item # dict_entries fs"
| "dict_entries (_ # fs) = dict_entries fs"

text \<open>An entry on which the body of the loop raises, and the clause of an entry on which
  it does not.\<close>

definition entry_raises :: "pyval \<Rightarrow> bool" where
  "entry_raises f = (case f of PDict filter_item \<Rightarrow> isl (format_filter filter_item) | _ \<Rightarrow> False)"

definition rendered_clause :: "pydict \<Rightarrow> string" where
  "rendered_clause filter_item = (case format_filter filter_item of Inr clause \<Rightarrow> clause | Inl _ \<Rightarrow> [])"

text \<open>
  Said with the keys of the entry alone: the truthy value, if there is one, that an entry
  has under \<^verbatim>\<open>Data\<close> or else under \<^verbatim>\<open>data\<close>; and the value on which \<^verbatim>\<open>.get\<close> is
  called although it is no mapping, which is that value or, when that value is a
  mapping, the truthy value under its \<^verbatim>\<open>param\<close>.
\<close>

definition selected_data :: "pydict \<Rightarrow> pyval option" where
  "selected_data filter_item =
     (let lower = (case map_of filter_item (PStr ''data'') of
                     Some u \<Rightarrow> if truthy u then Some u else None
                   | None \<Rightarrow> None)
      in case map_of filter_item (PStr ''Data'') of
           Some u \<Rightarrow> if truthy u then Some u else lower
         | None \<Rightarrow> lower)"

definition offending_value :: "pydict \<Rightarrow> pyval option" where
  "offending_value filter_item =
     (case selected_data filter_item of
        Some (PDict dd) \<Rightarrow>
          (case map_of dd (PStr ''param'') of
             Some p \<Rightarrow> if truthy p \<and> \<not> is_dict p then Some p else None
           | None \<Rightarrow> None)
      | Some v \<Rightarrow> Some v
      | None \<Rightarrow> None)"

text \<open>
  The trimming as the specification words it: strip trailing whitespace, strip the
  literal text \<^verbatim>\<open>AND\<close> if the string ends in it, strip trailing whitespace again.
\<close>

definition strip_suffix_AND :: "string \<Rightarrow> string" where
  "strip_suffix_AND s = (if drop (length s - 3) s = ''AND'' then take (length s - 3) s else s)"

definition join_clauses_spec :: "string list \<Rightarrow> string" where
  "join_clauses_spec formatted_filters =
     py_rstrip (strip_suffix_AND (py_rstrip (py_join '' '' formatted_filters)))"

section \<open>The loop over the filters\<close>

lemma format_filters_sound:
  "\<forall>f\<in>set fs. \<not> entry_raises f \<Longrightarrow>
     format_filters fs acc = Inr (acc @ map rendered_clause (dict_entries fs))"
proof (induction fs acc rule: format_filters.induct)
  case (2 item fs acc)
  then obtain c where c: "format_filter item = Inr c"
    by (cases "format_filter item") (auto simp: entry_raises_def)
  with 2 show ?case by (simp add: rendered_clause_def)
qed simp_all

lemma format_filters_append:
  "\<forall>f\<in>set pre. \<not> entry_raises f \<Longrightarrow>
     format_filters (pre @ rest) acc = format_filters rest (acc @ map rendered_clause (dict_entries pre))"
proof (induction pre acc rule: format_filters.induct)
  case (2 item fs acc)
  then obtain c where c: "format_filter item = Inr c"
    by (cases "format_filter item") (auto simp: entry_raises_def)
  with 2 show ?case by (simp add: rendered_clause_def)
qed simp_all

lemma format_filters_raises:
  "\<exists>f\<in>set fs. entry_raises f \<Longrightarrow> isl (format_filters fs acc)"
proof (induction fs acc rule: format_filters.induct)
  case (2 item fs acc)
  show ?case
  proof (cases "format_filter item")
    case (Inl e)
    then show ?thesis by simp
  next
    case (Inr c)
    with 2 show ?thesis by (auto simp: entry_raises_def)
  qed
qed (auto simp: entry_raises_def)

lemma format_filters_first_fault:
  assumes "PDict item \<in> set fs"
    and "format_filter item = Inl e"
    and "\<forall>f\<in>set (takeWhile (\<lambda>f. f \<noteq> PDict item) fs). \<not> entry_raises f"
  shows "format_filters fs acc = Inl e"
proof -
  let ?pre = "takeWhile (\<lambda>f. f \<noteq> PDict item) fs"
  let ?post = "dropWhile (\<lambda>f. f \<noteq> PDict item) fs"
  from assms(1) have "?post \<noteq> []" by auto
  then obtain rest where rest: "?post = PDict item # rest"
    using hd_dropWhile[of "\<lambda>f. f \<noteq> PDict item" fs] by (cases ?post) auto
  have "fs = ?pre @ ?post" by simp
  then have "format_filters fs acc = format_filters (?pre @ PDict item # rest) acc"
    using rest by simp
  also have "\<dots> = format_filters (PDict item # rest) (acc @ map rendered_clause (dict_entries ?pre))"
    by (rule format_filters_append[OF assms(3)])
  also have "\<dots> = Inl e" using assms(2) by simp
  finally show ?thesis .
qed

lemma render_filters_raises:
  assumes "dict_get wd ''filters'' = PList fs" and "\<exists>f\<in>set fs. entry_raises f"
  shows "isl (render_filters wd)"
proof -
  from format_filters_raises[OF assms(2), of "[]"] obtain e where
    "format_filters fs [] = Inl e" by (cases "format_filters fs []") auto
  moreover from assms(2) have "fs \<noteq> []" by auto
  ultimately show ?thesis using assms(1) by (simp add: render_filters_def)
qed

lemma render_filters_first_fault:
  assumes "dict_get wd ''filters'' = PList fs"
    and "PDict item \<in> set fs"
    and "format_filter item = Inl e"
    and "\<forall>f\<in>set (takeWhile (\<lambda>f. f \<noteq> PDict item) fs). \<not> entry_raises f"
  shows "render_filters wd = Inl e"
proof -
  from assms(2) have "fs \<noteq> []" by auto
  with assms(1) format_filters_first_fault[OF assms(2,3,4), of "[]"] show ?thesis
    by (simp add: render_filters_def)
qed

lemma render_filters_sound:
  assumes "dict_get wd ''filters'' = PList fs" and "fs \<noteq> []" and "\<forall>f\<in>set fs. \<not> entry_raises f"
  shows "render_filters wd =
           Inr (if dict_entries fs = [] then ''No valid filters found''
                else join_clauses (map rendered_clause (dict_entries fs)))"
  using assms by (simp add: render_filters_def format_filters_sound)

lemma render_filters_none:
  assumes "\<forall>fs. dict_get wd ''filters'' = PList fs \<longrightarrow> fs = []"
  shows "render_filters wd = Inr ''No filters defined''"
  using assms by (cases "dict_get wd ''filters''") (auto simp: render_filters_def)

lemma render_filters_only_filters:
  "dict_get a ''filters'' = dict_get b ''filters'' \<Longrightarrow> render_filters a = render_filters b"
  by (simp add: render_filters_def)

lemma dict_entries_not_raising:
  "\<forall>f\<in>set fs. \<not> entry_raises f \<Longrightarrow> list_all (\<lambda>item. \<not> entry_raises (PDict item)) (dict_entries fs)"
  by (induction fs rule: dict_entries.induct) simp_all

lemma render_filters_cases:
  "render_filters wd = Inr ''No filters defined''
   \<or> render_filters wd = Inr ''No valid filters found''
   \<or> (\<exists>es. es \<noteq> [] \<and> list_all (\<lambda>item. \<not> entry_raises (PDict item)) es
          \<and> render_filters wd = Inr (join_clauses (map rendered_clause es)))
   \<or> isl (render_filters wd)"
proof (cases "\<forall>fs. dict_get wd ''filters'' = PList fs \<longrightarrow> fs = []")
  case True
  then show ?thesis by (simp add: render_filters_none)
next
  case False
  then obtain fs where fs: "dict_get wd ''filters'' = PList fs" "fs \<noteq> []" by blast
  show ?thesis
  proof (cases "\<exists>f\<in>set fs. entry_raises f")
    case True
    from render_filters_raises[OF fs(1) True] show ?thesis by blast
  next
    case False
    then have ok: "\<forall>f\<in>set fs. \<not> entry_raises f" by blast
    from render_filters_sound[OF fs ok] dict_entries_not_raising[OF ok] show ?thesis
      by (cases "dict_entries fs = []") auto
  qed
qed

section \<open>The stages of the formatter\<close>

lemma format_query_try_working:
  "working_mapping jl le x = Some wd \<Longrightarrow> format_query_try jl le x = render_filters wd"
  by (auto simp: working_mapping_def format_query_try_def split: if_splits pyval.splits)

lemma format_query_try_invalid:
  "truthy x \<Longrightarrow> working_mapping jl le x = None \<Longrightarrow>
     format_query_try jl le x = Inr ''Invalid query format''"
  by (auto simp: working_mapping_def format_query_try_def split: if_splits pyval.splits)

lemma format_query_try_falsy:
  "\<not> truthy x \<Longrightarrow> format_query_try jl le x = Inr ''No query available''"
  by (simp add: format_query_try_def)

lemma format_query_working:
  "working_mapping jl le x = Some wd \<Longrightarrow>
     format_query_from_strat_name jl le x = absorb_fault (render_filters wd)"
  by (simp add: format_query_from_strat_name_def format_query_try_working)

lemma format_query_loaded:
  assumes "truthy x" and "load_query_data jl le x = PDict qd"
  shows "format_query_from_strat_name jl le x = absorb_fault (render_filters (unwrap_query jl le qd))"
  using assms by (simp add: format_query_from_strat_name_def format_query_try_def)

section \<open>The coercion chain\<close>






lemma coerce_all_faults:
  assumes "isl (jl (PStr s))" and "isl (le s)" and "isl (jl (PStr (replace_quotes s)))"
  shows "coerce_to_dict jl le (PStr s) = None"
proof -
  from assms obtain e1 e2 e3 where
    "jl (PStr s) = Inl e1" "le s = Inl e2" "jl (PStr (replace_quotes s)) = Inl e3"
    by (cases "jl (PStr s)"; cases "le s"; cases "jl (PStr (replace_quotes s))") auto
  then show ?thesis
    by (simp add: coerce_to_dict_def coerce_literal_def coerce_sanitized_def)
qed

lemma unwrap_text:
  "map_of qd (PStr ''query'') = Some (PStr t) \<Longrightarrow>
     unwrap_query jl le qd =
       (case coerce_to_dict jl le (PStr t) of Some inner \<Rightarrow> inner | None \<Rightarrow> qd)"
  by (simp add: unwrap_query_def)

lemma unwrap_mapping:
  "map_of qd (PStr ''query'') = Some (PDict inner) \<Longrightarrow> unwrap_query jl le qd = inner"
  by (simp add: unwrap_query_def)


section \<open>A rendered query is never a sentinel for missing filters\<close>

lemma in_set_dropWhile: "x \<in> set ys \<Longrightarrow> \<not> P x \<Longrightarrow> x \<in> set (dropWhile P ys)"
  by (induction ys) auto

lemma in_set_rstrip_while: "x \<in> set s \<Longrightarrow> \<not> P x \<Longrightarrow> x \<in> set (rstrip_while P s)"
  by (simp add: rstrip_while_def in_set_dropWhile)

lemma Y_not_space: "\<not> py_isspace (CHR ''Y'')"
  by (simp add: py_isspace_def)

lemma Y_in_stripped: "CHR ''Y'' \<in> set s \<Longrightarrow> CHR ''Y'' \<in> set (py_strip s)"
  unfolding py_strip_def
  by (intro in_set_rstrip_while in_set_dropWhile Y_not_space)

lemma Y_in_clause_text: "clause_text n p s t = Inr c \<Longrightarrow> CHR ''Y'' \<in> set c"
  by (auto simp: clause_text_def and_then_def split: sum.splits intro!: Y_in_stripped)

lemma with_operator_keeps: "c \<in> set clause \<Longrightarrow> c \<in> set (with_operator clause operator)"
  by (cases operator) (simp_all add: with_operator_def)

lemma Y_in_format_filter: "format_filter item = Inr c \<Longrightarrow> CHR ''Y'' \<in> set c"
  by (auto simp: format_filter_def Let_def and_then_def with_operator_keeps Y_in_clause_text
           split: pyval.splits sum.splits)

lemma Y_in_rendered_clause:
  "\<not> entry_raises (PDict item) \<Longrightarrow> CHR ''Y'' \<in> set (rendered_clause item)"
  by (cases "format_filter item") (simp_all add: entry_raises_def rendered_clause_def Y_in_format_filter)

lemma in_set_py_join:
  "cs \<noteq> [] \<Longrightarrow> \<forall>c\<in>set cs. x \<in> set c \<Longrightarrow> x \<in> set (py_join sep cs)"
  by (induction sep cs rule: py_join.induct) auto

lemma Y_in_join_clauses:
  assumes "cs \<noteq> []" and "\<forall>c\<in>set cs. CHR ''Y'' \<in> set c"
  shows "CHR ''Y'' \<in> set (join_clauses cs)"
  unfolding join_clauses_def py_rstrip_def py_rstrip_chars_def
  by (intro in_set_rstrip_while in_set_py_join assms Y_not_space) simp

lemma rendered_not_sentinel:
  assumes "es \<noteq> []" and "list_all (\<lambda>item. \<not> entry_raises (PDict item)) es"
  shows "join_clauses (map rendered_clause es) \<noteq> ''No filters defined''"
proof
  assume eq: "join_clauses (map rendered_clause es) = ''No filters defined''"
  have "CHR ''Y'' \<in> set (join_clauses (map rendered_clause es))"
    using assms by (intro Y_in_join_clauses) (auto simp: list_all_iff Y_in_rendered_clause)
  with eq show False by simp
qed

section \<open>The limit on the digits of an integer\<close>

text \<open>An integer is printed when it has at most 4300 digits, and raises beyond.\<close>

lemma nat_str_not_empty: "nat_str n \<noteq> []"
  by (subst nat_str.simps) simp

lemma nat_str_length_lower: "10 ^ k \<le> n \<Longrightarrow> k < length (nat_str n)"
proof (induction k arbitrary: n)
  case 0
  then show ?case using nat_str_not_empty[of n] by (cases "nat_str n") auto
next
  case (Suc k)
  have "(10::nat) \<le> 10 * 10 ^ k" by simp
  moreover from Suc.prems have "10 * 10 ^ k \<le> n" by simp
  ultimately have ten: "10 \<le> n" by (rule le_trans)
  from Suc.prems have "10 ^ k \<le> n div 10" by simp
  from Suc.IH[OF this] ten show ?case
    by (subst nat_str.simps) simp
qed

lemma nat_str_length_upper: "0 < k \<Longrightarrow> n < 10 ^ k \<Longrightarrow> length (nat_str n) \<le> k"
proof (induction k arbitrary: n)
  case 0
  then show ?case by simp
next
  case (Suc k)
  show ?case
  proof (cases "n < 10")
    case True
    then show ?thesis by (subst nat_str.simps) simp
  next
    case False
    then have "0 < k" using Suc.prems(2) by (cases k) auto
    moreover from Suc.prems(2) have "n div 10 < 10 ^ k" by simp
    ultimately have "length (nat_str (n div 10)) \<le> k" by (rule Suc.IH)
    with False show ?thesis by (subst nat_str.simps) simp
  qed
qed

lemma int_str_over_limit:
  assumes "10 ^ int_max_str_digits \<le> \<bar>i\<bar>"
  shows "int_str i = Inl digit_limit_error"
proof -
  have "int (10 ^ int_max_str_digits) = 10 ^ int_max_str_digits" by simp
  with assms have "int (10 ^ int_max_str_digits) \<le> \<bar>i\<bar>" by (simp only:)
  then have "10 ^ int_max_str_digits \<le> nat \<bar>i\<bar>" by (simp only: nat_le_iff[symmetric] nat_int)
  from nat_str_length_lower[OF this] show ?thesis by (simp add: int_str_def Let_def)
qed

lemma int_str_under_limit:
  assumes "\<bar>i\<bar> < 10 ^ int_max_str_digits"
  shows "int_str i = Inr (if i < 0 then CHR ''-'' # nat_str (nat \<bar>i\<bar>) else nat_str (nat \<bar>i\<bar>))"
proof -
  have "int (10 ^ int_max_str_digits) = 10 ^ int_max_str_digits" by simp
  with assms have "\<bar>i\<bar> < int (10 ^ int_max_str_digits)" by (simp only:)
  then have "nat \<bar>i\<bar> < 10 ^ int_max_str_digits" by (simp only: nat_less_iff abs_ge_zero)
  moreover have "0 < int_max_str_digits" by (simp add: int_max_str_digits_def)
  ultimately have "length (nat_str (nat \<bar>i\<bar>)) \<le> int_max_str_digits"
    by (rule nat_str_length_upper[rotated])
  then show ?thesis by (simp add: int_str_def Let_def)
qed

lemma huge_threshold_raises:
  assumes "10 ^ int_max_str_digits \<le> \<bar>n\<bar>"
  shows "format_filter [(PStr ''Data'', PDict [(PStr ''threshold'', PInt n)])] = Inl digit_limit_error"
proof -
  let ?dd = "[(PStr ''threshold'', PInt n)]"
  have d: "filter_data [(PStr ''Data'', PDict ?dd)] = PDict ?dd"
    by (simp add: filter_data_def py_or_def dict_get_def dict_get_default_def)
  have p: "filter_param ?dd = PDict []"
    by (simp add: filter_param_def py_or_def dict_get_def dict_get_default_def)
  have t: "threshold_str (dict_get ?dd ''threshold'') = Inl digit_limit_error"
    by (simp add: threshold_str_def py_str_def dict_get_def dict_get_default_def
          int_str_over_limit[OF assms])
  show ?thesis
    by (simp add: format_filter_def Let_def d p clause_text_def t and_then_def)
qed

lemma digit_chars:
  "digit_char 0 = CHR ''0''" "digit_char 3 = CHR ''3''" "digit_char 4 = CHR ''4''"
  by code_simp+

lemma nat_str_limit: "nat_str int_max_str_digits = ''4300''"
  by (simp add: int_max_str_digits_def nat_str.simps digit_chars)

lemma digit_limit_message:
  "absorb_fault (Inl digit_limit_error) =
     ''Query parsing error: Exceeds the limit (4300 digits) for integer string conversion; use sys.set_int_max_str_digits() to increase the limit''"
  by (simp add: absorb_fault_def digit_limit_error_def nat_str_limit)

text \<open>So a filter whose threshold is such an integer turns the whole call into the error
  sentinel with the message of the ValueError.\<close>

lemma huge_threshold_query:
  assumes "working_mapping jl le x = Some wd"
    and "dict_get wd ''filters'' = PList [PDict [(PStr ''Data'', PDict [(PStr ''threshold'', PInt n)])]]"
    and "10 ^ int_max_str_digits \<le> \<bar>n\<bar>"
  shows "format_query_from_strat_name jl le x =
     ''Query parsing error: Exceeds the limit (4300 digits) for integer string conversion; use sys.set_int_max_str_digits() to increase the limit''"
proof -
  let ?item = "[(PStr ''Data'', PDict [(PStr ''threshold'', PInt n)])]"
  have "render_filters wd = Inl digit_limit_error"
    by (rule render_filters_first_fault[OF assms(2) _ huge_threshold_raises[OF assms(3)]]) simp_all
  then show ?thesis
    by (simp only: format_query_working[OF assms(1)] digit_limit_message)
qed

section \<open>Trimming the joined clauses (C1)\<close>

text \<open>
  C1.  The claim: when the joined clauses end in the literal text \<^verbatim>\<open>AND\<close>, the
  formatter removes exactly that trailing \<^verbatim>\<open>AND\<close> and nothing else.  The source
  calls \<^verbatim>\<open>rstrip('AND')\<close>, which removes every trailing A, N and D.  For a last clause
  that ends in the operator \<^verbatim>\<open>NAND\<close> the source returns \<^verbatim>\<open>ROE 1 Years > 0.1\<close>,
  where removing the literal suffix gives \<^verbatim>\<open>ROE 1 Years > 0.1 N\<close>; on the two
  clauses of the specification's example both agree.
\<close>

theorem trailing_AND_failing_input:
  \<open>format_query_from_strat_name json_reader literal_reader
     (PStr ''{"filters": [{"Data": {"param": {"name": "ROE"}, "sign": "gt", "threshold": 0.1}, "Operator": "NAND"}]}'')
     = ''ROE 1 Years > 0.1''
   \<and> join_clauses [''ROE 1 Years > 0.1 NAND''] = ''ROE 1 Years > 0.1''
   \<and> join_clauses_spec [''ROE 1 Years > 0.1 NAND''] = ''ROE 1 Years > 0.1 N''
   \<and> join_clauses [''ROE 1 Years > 0.1 AND'', ''PE 1 Years < 20 AND'']
       = ''ROE 1 Years > 0.1 AND PE 1 Years < 20''
   \<and> join_clauses_spec [''ROE 1 Years > 0.1 AND'', ''PE 1 Years < 20 AND'']
       = ''ROE 1 Years > 0.1 AND PE 1 Years < 20''\<close>
  by code_simp

section \<open>The round trip of the example descriptor (C2)\<close>

text \<open>
  C2 (as amended).  The mapping with the one filter on ROE (sign gt, threshold 0.15,
  period 5, operator AND), written as JSON text, is formatted to
  \<^verbatim>\<open>ROE 5 Years > 0.15\<close>: the clause is \<^verbatim>\<open>ROE 5 Years > 0.15 AND\<close> and the
  final trimming removes its trailing AND.
\<close>

theorem roundtrip_example:
  \<open>format_query_from_strat_name json_reader literal_reader
     (PStr ''{"filters": [{"Data": {"param": {"name": "ROE"}, "sign": "gt", "threshold": 0.15, "period": 5}, "Operator": "AND"}]}'')
   = ''ROE 5 Years > 0.15''\<close>
  by code_simp

text \<open>C2 as stated fails: the string returned is not \<^verbatim>\<open>ROE 5 Years > 0.15 AND\<close>.\<close>

theorem roundtrip_example_has_no_trailing_AND:
  \<open>format_query_from_strat_name json_reader literal_reader
     (PStr ''{"filters": [{"Data": {"param": {"name": "ROE"}, "sign": "gt", "threshold": 0.15, "period": 5}, "Operator": "AND"}]}'')
   \<noteq> ''ROE 5 Years > 0.15 AND''\<close>
  by code_simp

section \<open>Every call returns a string (C3)\<close>

text \<open>
  C3 (as amended).  For every argument and whatever the two parsers do, the formatter
  returns one of the four fixed sentinels, the trimmed join of the clauses of a non-empty
  list of entries on which the loop does not raise, or \<^verbatim>\<open>Query parsing error: \<close>
  followed by the message of the exception that left the body.  Every exception that
  leaves the body is turned into \<^verbatim>\<open>Query parsing error: \<close> and its message.  An
  exception raised by a parser never leaves the body: when every parse attempted on a
  text raises, the result is \<^verbatim>\<open>Invalid query format\<close>.
\<close>

theorem format_query_always_a_string:
  "(format_query_from_strat_name jl le x = ''No query available''
    \<or> format_query_from_strat_name jl le x = ''Invalid query format''
    \<or> format_query_from_strat_name jl le x = ''No filters defined''
    \<or> format_query_from_strat_name jl le x = ''No valid filters found''
    \<or> (\<exists>es. es \<noteq> [] \<and> list_all (\<lambda>item. \<not> entry_raises (PDict item)) es \<and>
          format_query_from_strat_name jl le x = join_clauses (map rendered_clause es))
    \<or> (\<exists>e. format_query_try jl le x = Inl e \<and>
          format_query_from_strat_name jl le x = ''Query parsing error: '' @ exn_msg e))
   \<and> (\<forall>e. format_query_try jl le x = Inl e \<longrightarrow>
          format_query_from_strat_name jl le x = ''Query parsing error: '' @ exn_msg e)
   \<and> (\<forall>s. x = PStr s \<and> s \<noteq> [] \<and> isl (jl (PStr s)) \<and> isl (le s)
            \<and> isl (jl (PStr (replace_quotes s)))
          \<longrightarrow> format_query_from_strat_name jl le x = ''Invalid query format'')"
proof (intro conjI allI impI)
  show "format_query_from_strat_name jl le x = ''No query available''
    \<or> format_query_from_strat_name jl le x = ''Invalid query format''
    \<or> format_query_from_strat_name jl le x = ''No filters defined''
    \<or> format_query_from_strat_name jl le x = ''No valid filters found''
    \<or> (\<exists>es. es \<noteq> [] \<and> list_all (\<lambda>item. \<not> entry_raises (PDict item)) es \<and>
          format_query_from_strat_name jl le x = join_clauses (map rendered_clause es))
    \<or> (\<exists>e. format_query_try jl le x = Inl e \<and>
          format_query_from_strat_name jl le x = ''Query parsing error: '' @ exn_msg e)"
  proof (cases "truthy x")
    case False
    then show ?thesis
      by (simp add: format_query_from_strat_name_def format_query_try_falsy absorb_fault_def)
  next
    case True
    show ?thesis
    proof (cases "working_mapping jl le x")
      case None
      with True show ?thesis
        by (simp add: format_query_from_strat_name_def format_query_try_invalid absorb_fault_def)
    next
      case (Some wd)
      note t = format_query_try_working[OF Some]
      note w = format_query_working[OF Some]
      from render_filters_cases[of wd] consider
          "render_filters wd = Inr ''No filters defined''"
        | "render_filters wd = Inr ''No valid filters found''"
        | es where "es \<noteq> []" "list_all (\<lambda>item. \<not> entry_raises (PDict item)) es"
            "render_filters wd = Inr (join_clauses (map rendered_clause es))"
        | e where "render_filters wd = Inl e"
        by (cases "render_filters wd") auto
      then show ?thesis
      proof cases
        case 1
        then show ?thesis by (simp add: w absorb_fault_def)
      next
        case 2
        then show ?thesis by (simp add: w absorb_fault_def)
      next
        case 3
        then have "format_query_from_strat_name jl le x = join_clauses (map rendered_clause es)"
          by (simp add: w absorb_fault_def)
        with 3(1,2) show ?thesis by blast
      next
        case 4
        then have "format_query_try jl le x = Inl e"
          and "format_query_from_strat_name jl le x = ''Query parsing error: '' @ exn_msg e"
          by (simp_all add: t w absorb_fault_def)
        then show ?thesis by blast
      qed
    qed
  qed
next
  fix e assume "format_query_try jl le x = Inl e"
  then show "format_query_from_strat_name jl le x = ''Query parsing error: '' @ exn_msg e"
    by (simp add: format_query_from_strat_name_def absorb_fault_def)
next
  fix s
  assume a: "x = PStr s \<and> s \<noteq> [] \<and> isl (jl (PStr s)) \<and> isl (le s)
            \<and> isl (jl (PStr (replace_quotes s)))"
  then have c: "coerce_to_dict jl le x = None"
    by (simp add: coerce_all_faults)
  from a obtain e where "jl x = Inl e" by (cases "jl x") auto
  with c have "load_query_data jl le x = PNone"
    by (simp add: load_query_data_def)
  with a show "format_query_from_strat_name jl le x = ''Invalid query format''"
    by (simp add: format_query_from_strat_name_def format_query_try_def absorb_fault_def)
qed

text \<open>
  The theorem at two texts: a filter whose \<^verbatim>\<open>Data\<close> is the string \<^verbatim>\<open>x\<close> makes the
  body raise, and the text \<^verbatim>\<open>abc\<close> makes every parse raise.
\<close>

theorem format_query_always_a_string_witness:
  \<open>format_query_try json_reader literal_reader (PStr ''{"filters": [{"Data": "x"}]}'')
     = Inl (no_attribute (PStr ''x'') ''get'')
   \<and> format_query_from_strat_name json_reader literal_reader (PStr ''{"filters": [{"Data": "x"}]}'')
     = ''Query parsing error: '' @ exn_msg (no_attribute (PStr ''x'') ''get'')
   \<and> isl (json_reader (PStr ''abc'')) \<and> isl (literal_reader ''abc'')
   \<and> isl (json_reader (PStr (replace_quotes ''abc'')))
   \<and> format_query_from_strat_name json_reader literal_reader (PStr ''abc'')
     = ''Invalid query format''\<close>
proof -
  let ?x = \<open>PStr ''{"filters": [{"Data": "x"}]}''\<close>
  have h1: "format_query_try json_reader literal_reader ?x = Inl (no_attribute (PStr ''x'') ''get'')"
    by code_simp
  have h2: "PStr ''abc'' = PStr ''abc'' \<and> ''abc'' \<noteq> [] \<and> isl (json_reader (PStr ''abc''))
      \<and> isl (literal_reader ''abc'') \<and> isl (json_reader (PStr (replace_quotes ''abc'')))"
    by code_simp
  from format_query_always_a_string[of json_reader literal_reader ?x] h1
  have c1: "format_query_from_strat_name json_reader literal_reader ?x
      = ''Query parsing error: '' @ exn_msg (no_attribute (PStr ''x'') ''get'')"
    by blast
  from format_query_always_a_string[of json_reader literal_reader "PStr ''abc''"] h2
  have c2: "format_query_from_strat_name json_reader literal_reader (PStr ''abc'')
      = ''Invalid query format''"
    by blast
  have d1: "format_query_from_strat_name json_reader literal_reader ?x
      = ''Query parsing error: '' @ exn_msg (no_attribute (PStr ''x'') ''get'')"
    by code_simp
  have d2: "format_query_from_strat_name json_reader literal_reader (PStr ''abc'')
      = ''Invalid query format''"
    by code_simp
  from h1 h2 c1 c2 d1 d2 show ?thesis by blast
qed

text \<open>
  C3 as stated fails for the faults of parsing: on the text \<^verbatim>\<open>abc\<close> both parsers
  raise, and the result is \<^verbatim>\<open>Invalid query format\<close>, not
  \<^verbatim>\<open>Query parsing error: \<close> with a message.
\<close>

theorem parse_fault_counterexample:
  "isl (json_reader (PStr ''abc'')) \<and> isl (literal_reader ''abc'')
   \<and> format_query_from_strat_name json_reader literal_reader (PStr ''abc'') = ''Invalid query format''
   \<and> take 21 (format_query_from_strat_name json_reader literal_reader (PStr ''abc''))
        \<noteq> ''Query parsing error: ''"
  by code_simp

section \<open>The order of the coercion step (C4)\<close>



section \<open>Unwrapping the query key (C5)\<close>

text \<open>
  C5.  Let the argument be truthy and parse to the mapping \<open>qd\<close>.  If \<open>qd\<close> has a
  \<^verbatim>\<open>query\<close> key whose value is a text, the coercion step is run on that text, and the
  filters are rendered from the mapping it yields, or from \<open>qd\<close> itself when it yields
  none; if the value is a mapping, the filters are rendered from that mapping.  The
  rendering reads nothing but the \<^verbatim>\<open>filters\<close> key of the mapping it is given, so a
  \<^verbatim>\<open>query\<close> key of the replacement is not unwrapped again.
\<close>

theorem unwrap_query_once:
  assumes "truthy x" and "load_query_data jl le x = PDict qd"
  shows "(map_of qd (PStr ''query'') = Some (PStr t) \<and> coerce_to_dict jl le (PStr t) = Some inner
            \<longrightarrow> format_query_from_strat_name jl le x = absorb_fault (render_filters inner))
    \<and> (map_of qd (PStr ''query'') = Some (PStr t) \<and> coerce_to_dict jl le (PStr t) = None
            \<longrightarrow> format_query_from_strat_name jl le x = absorb_fault (render_filters qd))
    \<and> (map_of qd (PStr ''query'') = Some (PDict inner)
            \<longrightarrow> format_query_from_strat_name jl le x = absorb_fault (render_filters inner))
    \<and> (dict_get inner ''filters'' = dict_get inner' ''filters''
            \<longrightarrow> render_filters inner = render_filters inner')"
proof (intro conjI impI)
  assume "map_of qd (PStr ''query'') = Some (PStr t) \<and> coerce_to_dict jl le (PStr t) = Some inner"
  then show "format_query_from_strat_name jl le x = absorb_fault (render_filters inner)"
    by (simp add: format_query_loaded[OF assms] unwrap_text)
next
  assume "map_of qd (PStr ''query'') = Some (PStr t) \<and> coerce_to_dict jl le (PStr t) = None"
  then show "format_query_from_strat_name jl le x = absorb_fault (render_filters qd)"
    by (simp add: format_query_loaded[OF assms] unwrap_text)
next
  assume "map_of qd (PStr ''query'') = Some (PDict inner)"
  then show "format_query_from_strat_name jl le x = absorb_fault (render_filters inner)"
    by (simp add: format_query_loaded[OF assms] unwrap_mapping)
next
  assume "dict_get inner ''filters'' = dict_get inner' ''filters''"
  then show "render_filters inner = render_filters inner'"
    by (rule render_filters_only_filters)
qed

text \<open>
  The theorem at a mapping whose \<^verbatim>\<open>query\<close> is JSON text: the filters of the inner
  mapping are rendered, neither the empty \<^verbatim>\<open>filters\<close> of the outer mapping nor those
  under the inner mapping's own \<^verbatim>\<open>query\<close> key.
\<close>

theorem unwrap_query_once_witness:
  \<open>format_query_from_strat_name json_reader literal_reader
     (PStr ''{\'query\': \'{"filters": [{"Data": {"param": {"name": "PE"}, "sign": "lt", "threshold": 20}}], "query": {"filters": []}}\', \'filters\': []}'')
     = absorb_fault (render_filters
         [(PStr ''filters'', PList [PDict [(PStr ''Data'',
             PDict [(PStr ''param'', PDict [(PStr ''name'', PStr ''PE'')]), (PStr ''sign'', PStr ''lt''),
                    (PStr ''threshold'', PInt 20)])]]),
          (PStr ''query'', PDict [(PStr ''filters'', PList [])])])
   \<and> format_query_from_strat_name json_reader literal_reader
     (PStr ''{\'query\': \'{"filters": [{"Data": {"param": {"name": "PE"}, "sign": "lt", "threshold": 20}}], "query": {"filters": []}}\', \'filters\': []}'')
     = ''PE 1 Years < 20''\<close>
proof -
  let ?jl = json_reader and ?le = literal_reader
  let ?x = \<open>PStr ''{\'query\': \'{"filters": [{"Data": {"param": {"name": "PE"}, "sign": "lt", "threshold": 20}}], "query": {"filters": []}}\', \'filters\': []}''\<close>
  let ?t = \<open>''{"filters": [{"Data": {"param": {"name": "PE"}, "sign": "lt", "threshold": 20}}], "query": {"filters": []}}''\<close>
  let ?qd = "[(PStr ''query'', PStr ?t), (PStr ''filters'', PList [])]"
  let ?inner = "[(PStr ''filters'', PList [PDict [(PStr ''Data'',
             PDict [(PStr ''param'', PDict [(PStr ''name'', PStr ''PE'')]), (PStr ''sign'', PStr ''lt''),
                    (PStr ''threshold'', PInt 20)])]]),
          (PStr ''query'', PDict [(PStr ''filters'', PList [])])]"
  have h1: "truthy ?x" by simp
  have h2: "load_query_data ?jl ?le ?x = PDict ?qd" by code_simp
  have h3: "map_of ?qd (PStr ''query'') = Some (PStr ?t) \<and> coerce_to_dict ?jl ?le (PStr ?t) = Some ?inner"
    by code_simp
  from unwrap_query_once[where t = ?t and inner = ?inner, OF h1 h2] h3
  have c: "format_query_from_strat_name ?jl ?le ?x = absorb_fault (render_filters ?inner)"
    by blast
  have e: "absorb_fault (render_filters ?inner) = ''PE 1 Years < 20''" by code_simp
  from c e have "format_query_from_strat_name ?jl ?le ?x = ''PE 1 Years < 20''" by (rule trans)
  with c show ?thesis by (intro conjI)
qed

section \<open>One clause for each mapping entry (C6)\<close>

text \<open>
  C6 (as amended).  Let the argument parse and unwrap to a mapping whose \<^verbatim>\<open>filters\<close>
  is a non-empty list, and let the body of the loop raise on no entry of the list.  (It
  raises AttributeError on a mapping whose data, or whose data's param, is truthy and
  not a mapping, and ValueError where a value to print holds an integer of more than
  4300 digits.)  Then the result is the trimmed join, by single spaces, of exactly one
  clause for each entry that is a mapping, in the order of the list, the other entries
  being skipped; and it is \<^verbatim>\<open>No valid filters found\<close> when no entry is a mapping.
\<close>

theorem one_clause_per_entry:
  assumes "working_mapping jl le x = Some wd"
    and "dict_get wd ''filters'' = PList fs"
    and "fs \<noteq> []"
    and "\<forall>f\<in>set fs. \<not> entry_raises f"
  shows "format_query_from_strat_name jl le x =
           (if dict_entries fs = [] then ''No valid filters found''
            else join_clauses (map rendered_clause (dict_entries fs)))"
  using assms
  by (simp add: format_query_working render_filters_sound absorb_fault_def)

text \<open>
  The theorem at a list of four entries, two of them mappings: two clauses, in order.
\<close>

theorem one_clause_per_entry_witness:
  \<open>dict_entries [PInt 1, PDict [(PStr ''Data'', PDict [(PStr ''threshold'', PInt 5)]), (PStr ''Operator'', PStr ''OR'')],
       PStr ''x'', PDict [(PStr ''Data'', PDict [(PStr ''param'', PDict [(PStr ''name'', PStr ''PE'')])])]]
     = [[(PStr ''Data'', PDict [(PStr ''threshold'', PInt 5)]), (PStr ''Operator'', PStr ''OR'')],
        [(PStr ''Data'', PDict [(PStr ''param'', PDict [(PStr ''name'', PStr ''PE'')])])]]
   \<and> map rendered_clause
       [[(PStr ''Data'', PDict [(PStr ''threshold'', PInt 5)]), (PStr ''Operator'', PStr ''OR'')],
        [(PStr ''Data'', PDict [(PStr ''param'', PDict [(PStr ''name'', PStr ''PE'')])])]]
     = [''Unknown 1 Years = 5 OR'', ''PE 1 Years = None'']
   \<and> format_query_from_strat_name json_reader literal_reader
       (PStr ''{"filters": [1, {"Data": {"threshold": 5}, "Operator": "OR"}, "x", {"Data": {"param": {"name": "PE"}}}]}'')
     = ''Unknown 1 Years = 5 OR PE 1 Years = None''\<close>
proof -
  let ?x = \<open>PStr ''{"filters": [1, {"Data": {"threshold": 5}, "Operator": "OR"}, "x", {"Data": {"param": {"name": "PE"}}}]}''\<close>
  let ?e1 = "[(PStr ''Data'', PDict [(PStr ''threshold'', PInt 5)]), (PStr ''Operator'', PStr ''OR'')]"
  let ?e2 = "[(PStr ''Data'', PDict [(PStr ''param'', PDict [(PStr ''name'', PStr ''PE'')])])]"
  let ?fs = "[PInt 1, PDict ?e1, PStr ''x'', PDict ?e2]"
  let ?wd = "[(PStr ''filters'', PList ?fs)]"
  have h1: "working_mapping json_reader literal_reader ?x = Some ?wd" by code_simp
  have h2: "dict_get ?wd ''filters'' = PList ?fs" by code_simp
  have h3: "?fs \<noteq> []" by simp
  have h4: "\<forall>f\<in>set ?fs. \<not> entry_raises f" by code_simp
  have d: "dict_entries ?fs = [?e1, ?e2]" by simp
  have m: "map rendered_clause [?e1, ?e2] = [''Unknown 1 Years = 5 OR'', ''PE 1 Years = None'']"
    by code_simp
  have j: "(if dict_entries ?fs = [] then ''No valid filters found''
            else join_clauses (map rendered_clause (dict_entries ?fs)))
           = ''Unknown 1 Years = 5 OR PE 1 Years = None''"
    by code_simp
  from one_clause_per_entry[OF h1 h2 h3 h4] j
  have c: "format_query_from_strat_name json_reader literal_reader ?x
          = ''Unknown 1 Years = 5 OR PE 1 Years = None''"
    by (rule trans)
  have e: "format_query_from_strat_name json_reader literal_reader ?x
          = ''Unknown 1 Years = 5 OR PE 1 Years = None''"
    by code_simp
  from d m c e show ?thesis by (intro conjI)
qed

text \<open>
  C6 as stated fails: the second entry below is a mapping, and no clause is
  produced for any entry; the result is the error sentinel.
\<close>

theorem mapping_entry_without_clause:
  \<open>format_query_from_strat_name json_reader literal_reader
     (PStr ''{"filters": [{"Data": {"param": {"name": "PE"}, "sign": "lt", "threshold": 20}}, {"Data": "x"}]}'')
     = ''Query parsing error: '' @ exn_msg (no_attribute (PStr ''x'') ''get'')
   \<and> exn_msg (no_attribute (PStr ''x'') ''get'')
     = [squote] @ ''str'' @ [squote] @ '' object has no attribute '' @ [squote] @ ''get'' @ [squote]\<close>
  by code_simp

section \<open>When there are no filters (C7)\<close>

text \<open>
  C7 (as amended).  Let the argument parse and unwrap to the mapping \<open>wd\<close>.  The result
  is \<^verbatim>\<open>No filters defined\<close> exactly when the value of \<^verbatim>\<open>filters\<close> in \<open>wd\<close> is not a
  non-empty list: the key is absent, its value is not a list (a tuple is not a list), or
  it is the empty list.  Every non-empty list goes on to the rendering of clauses.
\<close>

theorem no_filters_defined_iff:
  assumes "working_mapping jl le x = Some wd"
  shows "format_query_from_strat_name jl le x = ''No filters defined''
           \<longleftrightarrow> (\<forall>fs. dict_get wd ''filters'' = PList fs \<longrightarrow> fs = [])"
proof (cases "\<forall>fs. dict_get wd ''filters'' = PList fs \<longrightarrow> fs = []")
  case True
  then show ?thesis
    using assms by (simp add: format_query_working render_filters_none absorb_fault_def)
next
  case False
  then obtain fs where fs: "dict_get wd ''filters'' = PList fs" "fs \<noteq> []" by blast
  have "format_query_from_strat_name jl le x \<noteq> ''No filters defined''"
  proof (cases "\<exists>f\<in>set fs. entry_raises f")
    case True
    from render_filters_raises[OF fs(1) True] obtain e where "render_filters wd = Inl e"
      by (cases "render_filters wd") auto
    then show ?thesis
      by (simp add: format_query_working[OF assms] absorb_fault_def)
  next
    case False
    then have ok: "\<forall>f\<in>set fs. \<not> entry_raises f" by blast
    from render_filters_sound[OF fs ok] dict_entries_not_raising[OF ok] show ?thesis
      by (simp add: format_query_working[OF assms] absorb_fault_def rendered_not_sentinel)
  qed
  with False show ?thesis by blast
qed

text \<open>
  The theorem at two texts: the empty list gives the sentinel, a list of one number does
  not (it gives \<^verbatim>\<open>No valid filters found\<close>).
\<close>

theorem no_filters_defined_iff_witness:
  \<open>working_mapping json_reader literal_reader (PStr ''{"filters": []}'')
     = Some [(PStr ''filters'', PList [])]
   \<and> format_query_from_strat_name json_reader literal_reader (PStr ''{"filters": []}'')
     = ''No filters defined''
   \<and> working_mapping json_reader literal_reader (PStr ''{"filters": [1]}'')
     = Some [(PStr ''filters'', PList [PInt 1])]
   \<and> format_query_from_strat_name json_reader literal_reader (PStr ''{"filters": [1]}'')
     \<noteq> ''No filters defined''\<close>
proof -
  let ?x1 = \<open>PStr ''{"filters": []}''\<close> and ?x2 = \<open>PStr ''{"filters": [1]}''\<close>
  let ?w1 = "[(PStr ''filters'', PList [])]" and ?w2 = "[(PStr ''filters'', PList [PInt 1])]"
  have h1: "working_mapping json_reader literal_reader ?x1 = Some ?w1" by code_simp
  have h2: "working_mapping json_reader literal_reader ?x2 = Some ?w2" by code_simp
  have g1: "dict_get ?w1 ''filters'' = PList []" by code_simp
  have g2: "dict_get ?w2 ''filters'' = PList [PInt 1]" by code_simp
  from no_filters_defined_iff[OF h1] g1
  have c1: "format_query_from_strat_name json_reader literal_reader ?x1 = ''No filters defined''"
    by simp
  from no_filters_defined_iff[OF h2] g2
  have c2: "format_query_from_strat_name json_reader literal_reader ?x2 \<noteq> ''No filters defined''"
    by simp
  from h1 c1 h2 c2 show ?thesis by (intro conjI)
qed

text \<open>
  C7 as stated fails for a sequence that is not a list: the literal syntax below gives a
  mapping whose \<^verbatim>\<open>filters\<close> is a tuple of one well-formed entry, and the result is
  \<^verbatim>\<open>No filters defined\<close>.
\<close>

theorem tuple_filters_counterexample:
  \<open>working_mapping json_reader literal_reader
     (PStr ''{"filters": ({"Data": {"param": {"name": "ROE"}, "sign": "gt", "threshold": 1}},)}'')
     = Some [(PStr ''filters'', PTuple [PDict [(PStr ''Data'',
          PDict [(PStr ''param'', PDict [(PStr ''name'', PStr ''ROE'')]), (PStr ''sign'', PStr ''gt''),
                 (PStr ''threshold'', PInt 1)])]])]
   \<and> format_query_from_strat_name json_reader literal_reader
     (PStr ''{"filters": ({"Data": {"param": {"name": "ROE"}, "sign": "gt", "threshold": 1}},)}'')
     = ''No filters defined''\<close>
  by code_simp

section \<open>The table of signs (C8)\<close>

text \<open>
  C8.  The sign token of an entry is the truthy value under \<^verbatim>\<open>sign\<close> in its data,
  else the truthy value under \<^verbatim>\<open>op\<close>, else \<^verbatim>\<open>=\<close>.  The token is looked up by its
  lower-cased text in the table gt, gte, lt, lte, eq, ne, which gives
  \<^verbatim>\<open>> >= < <= = !=\<close>; a token whose lower-cased text is not in the table is passed on
  unchanged.  When the values of the entry can be printed, its clause holds the text of
  the outcome between \<^verbatim>\<open>Years\<close> and the threshold.
\<close>

theorem sign_table:
  "(py_str t = Inr s \<longrightarrow>
      readable_sign t =
        Inr (if py_lower s = ''gt'' then PStr ''>''
             else if py_lower s = ''gte'' then PStr ''>=''
             else if py_lower s = ''lt'' then PStr ''<''
             else if py_lower s = ''lte'' then PStr ''<=''
             else if py_lower s = ''eq'' then PStr ''=''
             else if py_lower s = ''ne'' then PStr ''!=''
             else t))
   \<and> sign_token dd =
       (let from_op = (case map_of dd (PStr ''op'') of
                         Some b \<Rightarrow> if truthy b then b else PStr ''=''
                       | None \<Rightarrow> PStr ''='')
        in case map_of dd (PStr ''sign'') of
             Some a \<Rightarrow> if truthy a then a else from_op
           | None \<Rightarrow> from_op)
   \<and> (filter_data item = PDict dd \<and> filter_param dd = PDict pd
        \<and> threshold_str (dict_get dd ''threshold'') = Inr threshold_text
        \<and> readable_sign (sign_token dd) = Inr readable
        \<and> py_str (param_name pd) = Inr name_text
        \<and> py_str (dict_get_default dd ''period'' (PInt 1)) = Inr period_text
        \<and> py_str readable = Inr sign_text
      \<longrightarrow> format_filter item =
            Inr (with_operator
                   (py_strip (name_text @ '' '' @ period_text @ '' Years '' @ sign_text
                      @ '' '' @ threshold_text))
                   (filter_operator item)))"
proof (intro conjI impI)
  assume "py_str t = Inr s"
  then show "readable_sign t =
        Inr (if py_lower s = ''gt'' then PStr ''>''
             else if py_lower s = ''gte'' then PStr ''>=''
             else if py_lower s = ''lt'' then PStr ''<''
             else if py_lower s = ''lte'' then PStr ''<=''
             else if py_lower s = ''eq'' then PStr ''=''
             else if py_lower s = ''ne'' then PStr ''!=''
             else t)"
    by (simp add: readable_sign_def and_then_def sign_map_def)
next
  show "sign_token dd =
       (let from_op = (case map_of dd (PStr ''op'') of
                         Some b \<Rightarrow> if truthy b then b else PStr ''=''
                       | None \<Rightarrow> PStr ''='')
        in case map_of dd (PStr ''sign'') of
             Some a \<Rightarrow> if truthy a then a else from_op
           | None \<Rightarrow> from_op)"
    by (simp add: sign_token_def py_or_def dict_get_def dict_get_default_def Let_def
          split: option.split)
next
  assume "filter_data item = PDict dd \<and> filter_param dd = PDict pd
        \<and> threshold_str (dict_get dd ''threshold'') = Inr threshold_text
        \<and> readable_sign (sign_token dd) = Inr readable
        \<and> py_str (param_name pd) = Inr name_text
        \<and> py_str (dict_get_default dd ''period'' (PInt 1)) = Inr period_text
        \<and> py_str readable = Inr sign_text"
  then show "format_filter item =
            Inr (with_operator
                   (py_strip (name_text @ '' '' @ period_text @ '' Years '' @ sign_text
                      @ '' '' @ threshold_text))
                   (filter_operator item))"
    by (simp add: format_filter_def clause_text_def and_then_def Let_def)
qed

text \<open>
  The theorem at the tokens \<^verbatim>\<open>GTE\<close> and \<^verbatim>\<open>Approx\<close>, at a data mapping that has
  its token under \<^verbatim>\<open>op\<close>, and at an entry with that data; and the whole formatter on
  two entries, one with \<^verbatim>\<open>op\<close> and one with a sign that is not in the table.
\<close>

theorem sign_table_witness:
  \<open>readable_sign (PStr ''GTE'') = Inr (PStr ''>='')
   \<and> readable_sign (PStr ''Approx'') = Inr (PStr ''Approx'')
   \<and> sign_token [(PStr ''op'', PStr ''LTE''), (PStr ''threshold'', PInt 20)] = PStr ''LTE''
   \<and> format_filter [(PStr ''Data'', PDict [(PStr ''op'', PStr ''LTE''), (PStr ''threshold'', PInt 20)])]
       = Inr ''Unknown 1 Years <= 20''
   \<and> format_query_from_strat_name json_reader literal_reader
       (PStr ''{"filters": [{"Data": {"param": {"name": "PE"}, "op": "LTE", "threshold": 20}}, {"Data": {"sign": "Approx", "threshold": 3}}]}'')
       = ''PE 1 Years <= 20 Unknown 1 Years Approx 3''\<close>
proof -
  let ?dd = "[(PStr ''op'', PStr ''LTE''), (PStr ''threshold'', PInt 20)]"
  let ?item = "[(PStr ''Data'', PDict ?dd)]"
  have p1: "py_str (PStr ''GTE'') = Inr ''GTE''" by (simp add: py_str_def)
  have a1: "Inr (if py_lower ''GTE'' = ''gt'' then PStr ''>''
             else if py_lower ''GTE'' = ''gte'' then PStr ''>=''
             else if py_lower ''GTE'' = ''lt'' then PStr ''<''
             else if py_lower ''GTE'' = ''lte'' then PStr ''<=''
             else if py_lower ''GTE'' = ''eq'' then PStr ''=''
             else if py_lower ''GTE'' = ''ne'' then PStr ''!=''
             else PStr ''GTE'') = (Inr (PStr ''>='') :: exn + pyval)"
    by code_simp
  have c1: "readable_sign (PStr ''GTE'') = Inr (PStr ''>='')"
    using sign_table[where t = "PStr ''GTE''" and s = "''GTE''", THEN conjunct1, rule_format, OF p1] a1
    by (rule trans)
  have p2: "py_str (PStr ''Approx'') = Inr ''Approx''" by (simp add: py_str_def)
  have a2: "Inr (if py_lower ''Approx'' = ''gt'' then PStr ''>''
             else if py_lower ''Approx'' = ''gte'' then PStr ''>=''
             else if py_lower ''Approx'' = ''lt'' then PStr ''<''
             else if py_lower ''Approx'' = ''lte'' then PStr ''<=''
             else if py_lower ''Approx'' = ''eq'' then PStr ''=''
             else if py_lower ''Approx'' = ''ne'' then PStr ''!=''
             else PStr ''Approx'') = (Inr (PStr ''Approx'') :: exn + pyval)"
    by code_simp
  have c2: "readable_sign (PStr ''Approx'') = Inr (PStr ''Approx'')"
    using sign_table[where t = "PStr ''Approx''" and s = "''Approx''", THEN conjunct1, rule_format, OF p2] a2
    by (rule trans)
  have a3: "(let from_op = (case map_of ?dd (PStr ''op'') of
                         Some b \<Rightarrow> if truthy b then b else PStr ''=''
                       | None \<Rightarrow> PStr ''='')
        in case map_of ?dd (PStr ''sign'') of
             Some a \<Rightarrow> if truthy a then a else from_op
           | None \<Rightarrow> from_op) = PStr ''LTE''"
    by code_simp
  have c3: "sign_token ?dd = PStr ''LTE''"
    using sign_table[where dd = ?dd, THEN conjunct2, THEN conjunct1] a3 by (rule trans)
  have h: "filter_data ?item = PDict ?dd \<and> filter_param ?dd = PDict []
        \<and> threshold_str (dict_get ?dd ''threshold'') = Inr ''20''
        \<and> readable_sign (sign_token ?dd) = Inr (PStr ''<='')
        \<and> py_str (param_name []) = Inr ''Unknown''
        \<and> py_str (dict_get_default ?dd ''period'' (PInt 1)) = Inr ''1''
        \<and> py_str (PStr ''<='') = Inr ''<=''"
    by code_simp
  have e: "Inr (with_operator
                   (py_strip (''Unknown'' @ '' '' @ ''1'' @ '' Years '' @ ''<=''
                      @ '' '' @ ''20''))
                   (filter_operator ?item)) = (Inr ''Unknown 1 Years <= 20'' :: exn + string)"
    by code_simp
  have c4: "format_filter ?item = Inr ''Unknown 1 Years <= 20''"
    using sign_table[where item = ?item and dd = ?dd and pd = "[]", THEN conjunct2, THEN conjunct2,
            rule_format, OF h] e
    by (rule trans)
  have c5: \<open>format_query_from_strat_name json_reader literal_reader
       (PStr ''{"filters": [{"Data": {"param": {"name": "PE"}, "op": "LTE", "threshold": 20}}, {"Data": {"sign": "Approx", "threshold": 3}}]}'')
       = ''PE 1 Years <= 20 Unknown 1 Years Approx 3''\<close>
    by code_simp
  from c1 c2 c3 c4 c5 show ?thesis by (intro conjI)
qed

section \<open>Falsy and non-text arguments (C9)\<close>

text \<open>
  C9 (as amended).  For every falsy argument (the empty text, \<^verbatim>\<open>None\<close>, zero, an
  empty container) the result is \<^verbatim>\<open>No query available\<close>, whatever the parsers would
  answer: no parse is attempted.  A truthy argument that is not a text is given to
  \<^verbatim>\<open>json.loads\<close>.  When \<^verbatim>\<open>json.loads\<close> raises on it, as it does on every value
  that is neither text nor bytes, or returns a value that is not a mapping, the result is
  \<^verbatim>\<open>Invalid query format\<close>.  When it returns a mapping, as it does on bytes that hold
  a JSON object, the result is the one for that mapping.
\<close>

theorem falsy_or_non_text_input:
  "(\<not> truthy x \<longrightarrow> format_query_from_strat_name jl le x = ''No query available'')
   \<and> (truthy x \<and> \<not> is_str x \<and> isl (jl x)
        \<longrightarrow> format_query_from_strat_name jl le x = ''Invalid query format'')
   \<and> (truthy x \<and> jl x = Inr v \<and> \<not> is_dict v
        \<longrightarrow> format_query_from_strat_name jl le x = ''Invalid query format'')
   \<and> (truthy x \<and> jl x = Inr (PDict qd)
        \<longrightarrow> format_query_from_strat_name jl le x
              = absorb_fault (render_filters (unwrap_query jl le qd)))"
proof (intro conjI impI)
  assume "\<not> truthy x"
  then show "format_query_from_strat_name jl le x = ''No query available''"
    by (simp add: format_query_from_strat_name_def format_query_try_def absorb_fault_def)
next
  assume a: "truthy x \<and> \<not> is_str x \<and> isl (jl x)"
  then have "coerce_to_dict jl le x = None"
    by (cases x) (simp_all add: coerce_to_dict_def)
  moreover from a obtain e where "jl x = Inl e" by (cases "jl x") auto
  ultimately have "load_query_data jl le x = PNone"
    by (simp add: load_query_data_def)
  with a show "format_query_from_strat_name jl le x = ''Invalid query format''"
    by (simp add: format_query_from_strat_name_def format_query_try_def absorb_fault_def)
next
  assume a: "truthy x \<and> jl x = Inr v \<and> \<not> is_dict v"
  then have "load_query_data jl le x = v" by (simp add: load_query_data_def)
  with a show "format_query_from_strat_name jl le x = ''Invalid query format''"
    by (cases v) (simp_all add: format_query_from_strat_name_def format_query_try_def absorb_fault_def)
next
  assume a: "truthy x \<and> jl x = Inr (PDict qd)"
  then have "load_query_data jl le x = PDict qd" by (simp add: load_query_data_def)
  with a show "format_query_from_strat_name jl le x
              = absorb_fault (render_filters (unwrap_query jl le qd))"
    by (simp add: format_query_loaded)
qed

text \<open>
  The theorem at the empty text, at \<^verbatim>\<open>None\<close>, at the list \<^verbatim>\<open>[1]\<close>, and at bytes that
  hold a JSON list and a JSON object.
\<close>

theorem falsy_or_non_text_input_witness:
  \<open>format_query_from_strat_name json_reader literal_reader (PStr []) = ''No query available''
   \<and> format_query_from_strat_name json_reader literal_reader PNone = ''No query available''
   \<and> truthy (PList [PInt 1]) \<and> \<not> is_str (PList [PInt 1]) \<and> isl (json_reader (PList [PInt 1]))
   \<and> format_query_from_strat_name json_reader literal_reader (PList [PInt 1])
       = ''Invalid query format''
   \<and> json_reader (PBytes ''[1]'') = Inr (PList [PInt 1])
   \<and> format_query_from_strat_name json_reader literal_reader (PBytes ''[1]'')
       = ''Invalid query format''
   \<and> json_reader (PBytes ''{"filters": []}'') = Inr (PDict [(PStr ''filters'', PList [])])
   \<and> format_query_from_strat_name json_reader literal_reader (PBytes ''{"filters": []}'')
       = ''No filters defined''\<close>
proof -
  let ?jl = json_reader and ?le = literal_reader
  note T = falsy_or_non_text_input[where jl = json_reader and le = literal_reader]
  have f1: "\<not> truthy (PStr [])" and f2: "\<not> truthy PNone" by simp_all
  have h3: "truthy (PList [PInt 1]) \<and> \<not> is_str (PList [PInt 1]) \<and> isl (?jl (PList [PInt 1]))"
    by code_simp
  have j4: "?jl (PBytes ''[1]'') = Inr (PList [PInt 1])" by code_simp
  have h4: "truthy (PBytes ''[1]'') \<and> ?jl (PBytes ''[1]'') = Inr (PList [PInt 1])
      \<and> \<not> is_dict (PList [PInt 1])"
    using j4 by simp
  let ?b = \<open>PBytes ''{"filters": []}''\<close>
  let ?qd = "[(PStr ''filters'', PList [])]"
  have j5: "?jl ?b = Inr (PDict ?qd)" by code_simp
  have h5: "truthy ?b \<and> ?jl ?b = Inr (PDict ?qd)" using j5 by simp
  have e5: "absorb_fault (render_filters (unwrap_query ?jl ?le ?qd)) = ''No filters defined''"
    by code_simp
  from T[where x = "PStr []"] f1
  have c1: "format_query_from_strat_name ?jl ?le (PStr []) = ''No query available''" by blast
  from T[where x = PNone] f2
  have c2: "format_query_from_strat_name ?jl ?le PNone = ''No query available''" by blast
  from T[where x = "PList [PInt 1]"] h3
  have c3: "format_query_from_strat_name ?jl ?le (PList [PInt 1]) = ''Invalid query format''"
    by blast
  from T[where x = "PBytes ''[1]''" and v = "PList [PInt 1]"] h4
  have c4: "format_query_from_strat_name ?jl ?le (PBytes ''[1]'') = ''Invalid query format''"
    by blast
  from T[where x = ?b and qd = ?qd] h5
  have "format_query_from_strat_name ?jl ?le ?b = absorb_fault (render_filters (unwrap_query ?jl ?le ?qd))"
    by blast
  then have c5: "format_query_from_strat_name ?jl ?le ?b = ''No filters defined''"
    using e5 by (rule trans)
  have d: \<open>format_query_from_strat_name ?jl ?le (PStr []) = ''No query available''
      \<and> format_query_from_strat_name ?jl ?le PNone = ''No query available''
      \<and> format_query_from_strat_name ?jl ?le (PList [PInt 1]) = ''Invalid query format''
      \<and> format_query_from_strat_name ?jl ?le (PBytes ''[1]'') = ''Invalid query format''
      \<and> format_query_from_strat_name ?jl ?le (PBytes ''{"filters": []}'') = ''No filters defined''\<close>
    by code_simp
  from c1 c2 h3 c3 j4 c4 j5 c5 d show ?thesis by (intro conjI) simp_all
qed

text \<open>
  C9 as stated fails for a non-text argument that is truthy: the number 5 is given to
  \<^verbatim>\<open>json.loads\<close>, which raises, and the result is \<^verbatim>\<open>Invalid query format\<close>.
\<close>

theorem non_text_counterexample:
  "truthy (PInt 5) \<and> \<not> is_str (PInt 5)
   \<and> format_query_from_strat_name json_reader literal_reader (PInt 5) = ''Invalid query format''
   \<and> format_query_from_strat_name json_reader literal_reader (PInt 5) \<noteq> ''No query available''"
  by code_simp

section \<open>An entry that makes the loop raise (C10)\<close>

text \<open>
  C10.  Let the argument parse and unwrap to a mapping whose \<^verbatim>\<open>filters\<close> is a list,
  and let an entry of the list be a mapping with an offending value \<open>v\<close>: its truthy
  value under \<^verbatim>\<open>Data\<close>, or else under \<^verbatim>\<open>data\<close>, when that is not a mapping, or
  else the truthy value under \<^verbatim>\<open>param\<close> of that mapping when it is not a mapping.
  Then the whole call returns \<^verbatim>\<open>Query parsing error: \<close> followed by the message of
  an exception: no clause is returned, neither those rendered before the entry nor any
  after it.  When the loop raises on no entry before this one, the message is that of the
  AttributeError for \<open>v\<close>.
\<close>

theorem faulty_entry_aborts:
  assumes "working_mapping jl le x = Some wd"
    and "dict_get wd ''filters'' = PList fs"
    and "PDict item \<in> set fs"
    and "offending_value item = Some v"
  shows "\<not> is_dict v \<and> truthy v
    \<and> (\<exists>e. format_query_try jl le x = Inl e
           \<and> format_query_from_strat_name jl le x = ''Query parsing error: '' @ exn_msg e)
    \<and> ((\<forall>f\<in>set (takeWhile (\<lambda>f. f \<noteq> PDict item) fs). \<not> entry_raises f)
         \<longrightarrow> format_query_from_strat_name jl le x
               = ''Query parsing error: '' @ exn_msg (no_attribute v ''get''))"
proof -
  have v: "\<not> is_dict v \<and> truthy v \<and> format_filter item = Inl (no_attribute v ''get'')"
  proof (cases "selected_data item")
    case None
    with assms(4) show ?thesis by (simp add: offending_value_def)
  next
    case (Some d)
    then have fd: "filter_data item = d"
      by (auto simp: selected_data_def filter_data_def py_or_def dict_get_def dict_get_default_def
            Let_def split: option.splits if_splits)
    from Some have td: "truthy d"
      by (auto simp: selected_data_def Let_def split: option.splits if_splits)
    show ?thesis
    proof (cases "is_dict d")
      case False
      with assms(4) Some have "v = d" by (cases d) (simp_all add: offending_value_def)
      moreover have "format_filter item = Inl (no_attribute d ''get'')"
        using False fd by (cases d) (simp_all add: format_filter_def Let_def)
      ultimately show ?thesis using False td by simp
    next
      case True
      then obtain dd where dd: "d = PDict dd" by (cases d) auto
      with assms(4) Some have p: "map_of dd (PStr ''param'') = Some v" "truthy v" "\<not> is_dict v"
        by (auto simp: offending_value_def split: option.splits if_splits)
      then have "filter_param dd = v"
        by (simp add: filter_param_def py_or_def dict_get_def dict_get_default_def)
      with p(3) have "format_filter item = Inl (no_attribute v ''get'')"
        using fd dd by (cases v) (simp_all add: format_filter_def Let_def)
      with p show ?thesis by simp
    qed
  qed
  then have "entry_raises (PDict item)" by (simp add: entry_raises_def)
  with assms(3) have "\<exists>f\<in>set fs. entry_raises f" by blast
  from render_filters_raises[OF assms(2) this] obtain e where e: "render_filters wd = Inl e"
    by (cases "render_filters wd") auto
  then have "format_query_try jl le x = Inl e"
    and "format_query_from_strat_name jl le x = ''Query parsing error: '' @ exn_msg e"
    by (simp_all add: format_query_try_working[OF assms(1)] format_query_working[OF assms(1)]
          absorb_fault_def)
  then have a: "\<exists>e. format_query_try jl le x = Inl e
           \<and> format_query_from_strat_name jl le x = ''Query parsing error: '' @ exn_msg e"
    by blast
  have b: "format_query_from_strat_name jl le x
               = ''Query parsing error: '' @ exn_msg (no_attribute v ''get'')"
    if "\<forall>f\<in>set (takeWhile (\<lambda>f. f \<noteq> PDict item) fs). \<not> entry_raises f"
  proof -
    from v have "format_filter item = Inl (no_attribute v ''get'')" by simp
    from render_filters_first_fault[OF assms(2,3) this that] show ?thesis
      by (simp add: format_query_working[OF assms(1)] absorb_fault_def)
  qed
  from v a b show ?thesis by blast
qed

text \<open>
  The theorem at two texts.  In the first, an entry that renders is followed by the
  entry whose \<^verbatim>\<open>Data\<close> is the string \<^verbatim>\<open>x\<close>: the result is the error for \<^verbatim>\<open>str\<close>,
  and the first clause is lost.  In the second, the entry has the number 7 as the
  \<^verbatim>\<open>param\<close> of its \<^verbatim>\<open>data\<close>: the result is the error for \<^verbatim>\<open>int\<close>.
\<close>

theorem faulty_entry_aborts_witness:
  \<open>offending_value [(PStr ''Data'', PStr ''x'')] = Some (PStr ''x'')
   \<and> format_query_from_strat_name json_reader literal_reader
       (PStr ''{"filters": [{"Data": {"param": {"name": "PE"}, "sign": "lt", "threshold": 20}}, {"Data": "x"}]}'')
       = ''Query parsing error: '' @ exn_msg (no_attribute (PStr ''x'') ''get'')
   \<and> exn_msg (no_attribute (PStr ''x'') ''get'')
       = [squote] @ ''str'' @ [squote] @ '' object has no attribute '' @ [squote] @ ''get'' @ [squote]
   \<and> offending_value [(PStr ''data'', PDict [(PStr ''param'', PInt 7)])] = Some (PInt 7)
   \<and> format_query_from_strat_name json_reader literal_reader
       (PStr ''{"filters": [{"data": {"param": 7}}]}'')
       = ''Query parsing error: '' @ exn_msg (no_attribute (PInt 7) ''get'')
   \<and> exn_msg (no_attribute (PInt 7) ''get'')
       = [squote] @ ''int'' @ [squote] @ '' object has no attribute '' @ [squote] @ ''get'' @ [squote]\<close>
proof -
  let ?jl = json_reader and ?le = literal_reader
  let ?x1 = \<open>PStr ''{"filters": [{"Data": {"param": {"name": "PE"}, "sign": "lt", "threshold": 20}}, {"Data": "x"}]}''\<close>
  let ?ok = "PDict [(PStr ''Data'', PDict [(PStr ''param'', PDict [(PStr ''name'', PStr ''PE'')]),
                 (PStr ''sign'', PStr ''lt''), (PStr ''threshold'', PInt 20)])]"
  let ?i1 = "[(PStr ''Data'', PStr ''x'')]"
  let ?fs1 = "[?ok, PDict ?i1]"
  let ?w1 = "[(PStr ''filters'', PList ?fs1)]"
  have a1: "working_mapping ?jl ?le ?x1 = Some ?w1" by code_simp
  have a2: "dict_get ?w1 ''filters'' = PList ?fs1" by code_simp
  have a3: "PDict ?i1 \<in> set ?fs1" by simp
  have a4: "offending_value ?i1 = Some (PStr ''x'')" by code_simp
  have a5: "\<forall>f\<in>set (takeWhile (\<lambda>f. f \<noteq> PDict ?i1) ?fs1). \<not> entry_raises f" by code_simp
  from faulty_entry_aborts[OF a1 a2 a3 a4] a5
  have c1: "format_query_from_strat_name ?jl ?le ?x1
       = ''Query parsing error: '' @ exn_msg (no_attribute (PStr ''x'') ''get'')"
    by blast
  have m1: "exn_msg (no_attribute (PStr ''x'') ''get'')
       = [squote] @ ''str'' @ [squote] @ '' object has no attribute '' @ [squote] @ ''get'' @ [squote]"
    by code_simp
  let ?x2 = \<open>PStr ''{"filters": [{"data": {"param": 7}}]}''\<close>
  let ?i2 = "[(PStr ''data'', PDict [(PStr ''param'', PInt 7)])]"
  let ?fs2 = "[PDict ?i2]"
  let ?w2 = "[(PStr ''filters'', PList ?fs2)]"
  have b1: "working_mapping ?jl ?le ?x2 = Some ?w2" by code_simp
  have b2: "dict_get ?w2 ''filters'' = PList ?fs2" by code_simp
  have b3: "PDict ?i2 \<in> set ?fs2" by simp
  have b4: "offending_value ?i2 = Some (PInt 7)" by code_simp
  have b5: "\<forall>f\<in>set (takeWhile (\<lambda>f. f \<noteq> PDict ?i2) ?fs2). \<not> entry_raises f" by simp
  from faulty_entry_aborts[OF b1 b2 b3 b4] b5
  have c2: "format_query_from_strat_name ?jl ?le ?x2
       = ''Query parsing error: '' @ exn_msg (no_attribute (PInt 7) ''get'')"
    by blast
  have m2: "exn_msg (no_attribute (PInt 7) ''get'')
       = [squote] @ ''int'' @ [squote] @ '' object has no attribute '' @ [squote] @ ''get'' @ [squote]"
    by code_simp
  have d1: "format_query_from_strat_name ?jl ?le ?x1
       = ''Query parsing error: '' @ exn_msg (no_attribute (PStr ''x'') ''get'')"
    by code_simp
  have d2: "format_query_from_strat_name ?jl ?le ?x2
       = ''Query parsing error: '' @ exn_msg (no_attribute (PInt 7) ''get'')"
    by code_simp
  from a4 c1 m1 b4 c2 m2 d1 d2 show ?thesis by (intro conjI)
qed

end
